theory Spec2Isabelle
  imports Main
begin

section \<open>Data model\<close>

text \<open>
  The handlers of the backend are request-per-call functions over one relational store
  (reached through the Prisma client). The store is modelled as a record of tables, each
  table a list of rows in storage order. Identifiers are strings (cuid/uuid), instants are
  milliseconds since the epoch (what \<^verbatim>\<open>Date.getTime()\<close> yields), roles and statuses are
  the strings the code compares against. The Prisma schema is not among the sources, so
  the tables carry no constraint of their own: key uniqueness is stated as a hypothesis
  where a claim needs it.
\<close>

type_synonym ident = string
type_synonym instant = int

record organization =
  o_id :: ident
  o_name :: string
  o_address :: string

record user =
  u_id :: ident
  u_email :: string
  u_name :: string
  u_role :: string
  u_organizationId :: "ident option"
  u_isEmailVerified :: bool

record clinic =
  c_id :: ident
  c_name :: string
  c_address :: string
  c_phone :: string
  c_organizationId :: ident

record patient =
  p_id :: ident
  p_name :: string
  p_phone :: string
  p_email :: "string option"
  p_clinicId :: ident

record appointment =
  a_id :: ident
  a_patientId :: ident
  a_doctorId :: ident
  a_clinicId :: ident
  a_appointmentDate :: instant
  a_duration :: int
  a_notes :: "string option"
  a_status :: string

record ehrRecord =
  e_id :: ident
  e_patientId :: ident
  e_doctorId :: ident
  e_visitDate :: instant
  e_chiefComplaint :: string

record invite =
  i_id :: ident
  i_email :: string
  i_token :: string
  i_role :: string
  i_organizationId :: ident
  i_invitedBy :: ident
  i_isUsed :: bool
  i_expiresAt :: instant

record backup =
  b_id :: ident
  b_organizationId :: ident
  b_type :: string
  b_fileUrl :: string
  b_createdBy :: ident

record organizationAddOn =
  oa_id :: ident
  oa_organizationId :: ident
  oa_addOnId :: ident
  oa_isActive :: bool
  oa_usageCount :: int

record subscription =
  s_id :: ident
  s_organizationId :: ident
  s_razorpaySubscriptionId :: string
  s_amount :: int
  s_status :: string
  s_endDate :: "instant option"

record db =
  organizations :: "organization list"
  users :: "user list"
  clinics :: "clinic list"
  patients :: "patient list"
  appointments :: "appointment list"
  ehrRecords :: "ehrRecord list"
  invites :: "invite list"
  backups :: "backup list"
  organizationAddOns :: "organizationAddOn list"
  subscriptions :: "subscription list"

text \<open>
  What a handler sends: \<^verbatim>\<open>res.status(n).json({error: msg})\<close> is \<open>Error n msg\<close>, the
  duplicate-phone reply of \<^verbatim>\<open>createPatient\<close> also carries id, name and phone of the
  existing patient, and a success is \<open>Json n payload\<close>.
\<close>

datatype 'a response =
  Json nat 'a
| Error nat string
| ErrorExisting nat string ident string string

fun isError :: "'a response \<Rightarrow> bool" where
  "isError (Json n x) = False"
| "isError (Error n m) = True"
| "isError (ErrorExisting n m i nm ph) = True"

section \<open>Store queries\<close>

text \<open>
  \<^verbatim>\<open>findUnique\<close> and \<^verbatim>\<open>findFirst\<close> return the first row that satisfies the filter or
  null; \<^verbatim>\<open>updateMany\<close> rewrites every row that satisfies it; \<^verbatim>\<open>count\<close> counts them.
\<close>

definition findFirst :: "('a \<Rightarrow> bool) \<Rightarrow> 'a list \<Rightarrow> 'a option" where
  "findFirst P xs = find P xs"

definition updateMany :: "('a \<Rightarrow> bool) \<Rightarrow> ('a \<Rightarrow> 'a) \<Rightarrow> 'a list \<Rightarrow> 'a list" where
  "updateMany P f xs = map (\<lambda>x. if P x then f x else x) xs"

definition count :: "('a \<Rightarrow> bool) \<Rightarrow> 'a list \<Rightarrow> nat" where
  "count P xs = length (filter P xs)"

text \<open>\<^verbatim>\<open>prisma.user.findUnique({where: {id: userId}, include: {organization: true}})\<close>:
  the user row, and the organization row its foreign key points to. \<open>userId\<close> is what
  a handler reads from \<^verbatim>\<open>req.user.userId\<close>; it is an input of every handler below.\<close>

definition findUser :: "db \<Rightarrow> ident \<Rightarrow> user option" where
  "findUser d uid = findFirst (\<lambda>u. u_id u = uid) (users d)"

definition organizationOf :: "db \<Rightarrow> user \<Rightarrow> organization option" where
  "organizationOf d u =
     (case u_organizationId u of
        None \<Rightarrow> None
      | Some oid \<Rightarrow> findFirst (\<lambda>g. o_id g = oid) (organizations d))"

text \<open>The relation filters \<^verbatim>\<open>clinic: {organizationId: X}\<close> and
  \<^verbatim>\<open>patient: {clinic: {organizationId: X}}\<close>: a join along the foreign keys.\<close>

definition clinicInOrg :: "db \<Rightarrow> ident \<Rightarrow> ident \<Rightarrow> bool" where
  "clinicInOrg d oid cid =
     (case findFirst (\<lambda>c. c_id c = cid) (clinics d) of
        None \<Rightarrow> False
      | Some c \<Rightarrow> c_organizationId c = oid)"

definition patientInOrg :: "db \<Rightarrow> ident \<Rightarrow> ident \<Rightarrow> bool" where
  "patientInOrg d oid pid =
     (case findFirst (\<lambda>p. p_id p = pid) (patients d) of
        None \<Rightarrow> False
      | Some p \<Rightarrow> clinicInOrg d oid (p_clinicId p))"

section \<open>JavaScript values\<close>

text \<open>JavaScript truthiness of an optional string (\<^verbatim>\<open>undefined\<close> and \<^verbatim>\<open>""\<close> are falsy),
  and \<^verbatim>\<open>x || y\<close> on optional strings and numbers (\<^verbatim>\<open>0\<close> is falsy).\<close>

fun truthy :: "string option \<Rightarrow> bool" where
  "truthy None = False"
| "truthy (Some s) = (s \<noteq> [])"

fun strOr :: "string option \<Rightarrow> string \<Rightarrow> string" where
  "strOr None y = y"
| "strOr (Some s) y = (if s = [] then y else s)"

fun numOr :: "int option \<Rightarrow> int \<Rightarrow> int" where
  "numOr None y = y"
| "numOr (Some n) y = (if n = 0 then y else n)"

section \<open>Appointments\<close>

text \<open>The \<^verbatim>\<open>whereConditions\<close> of \<^verbatim>\<open>getAppointmentById\<close>, \<^verbatim>\<open>updateAppointment\<close> and
  \<^verbatim>\<open>deleteAppointment\<close>: the id, the caller's organization through the clinic, and for a
  DOCTOR the caller as the assigned doctor.\<close>

definition appointmentScope :: "db \<Rightarrow> user \<Rightarrow> organization \<Rightarrow> ident \<Rightarrow> ident \<Rightarrow> appointment \<Rightarrow> bool" where
  "appointmentScope d usr org userId i a =
     (a_id a = i \<and> clinicInOrg d (o_id org) (a_clinicId a) \<and>
      (if u_role usr = ''DOCTOR'' then a_doctorId a = userId else True))"

text \<open>\<^verbatim>\<open>GET /api/appointments\<close>. A reply carries the rows themselves; the patient, doctor
  and clinic that \<^verbatim>\<open>include\<close> adds to a row are projections of rows the store holds and
  are not repeated in the payload. The handler fills \<^verbatim>\<open>whereConditions\<close> by successive
  assignments; a later assignment to the same key replaces the earlier one. A query's
  \<^verbatim>\<open>date\<close> is \<open>None\<close> when the parameter is absent or empty; otherwise it is the pair
  of instants the handler computes from it: \<^verbatim>\<open>startDate = new Date(date)\<close> and
  \<^verbatim>\<open>endDate\<close>, the same date after \<^verbatim>\<open>setDate(getDate() + 1)\<close>. The calendar step is
  taken in the time zone of the server, so the two are 24 hours apart on most days and 23
  or 25 hours apart across a change of daylight saving time; the model takes both instants
  as the runtime yields them. A date that does not parse is not modelled.\<close>

record appointmentWhere =
  w_organizationId :: ident
  w_doctorId :: "ident option"
  w_appointmentDate :: "(instant \<times> instant) option"
  w_clinicId :: "ident option"
  w_status :: "string option"

record appointmentQuery =
  q_date :: "(instant \<times> instant) option"
  q_doctor :: "string option"
  q_clinic :: "string option"
  q_status :: "string option"

definition matchesWhere :: "db \<Rightarrow> appointmentWhere \<Rightarrow> appointment \<Rightarrow> bool" where
  "matchesWhere d w a =
     (clinicInOrg d (w_organizationId w) (a_clinicId a) \<and>
      (case w_doctorId w of None \<Rightarrow> True | Some x \<Rightarrow> a_doctorId a = x) \<and>
      (case w_appointmentDate w of None \<Rightarrow> True
         | Some (lo, hi) \<Rightarrow> lo \<le> a_appointmentDate a \<and> a_appointmentDate a < hi) \<and>
      (case w_clinicId w of None \<Rightarrow> True | Some x \<Rightarrow> a_clinicId a = x) \<and>
      (case w_status w of None \<Rightarrow> True | Some x \<Rightarrow> a_status a = x))"

definition whereConditions :: "user \<Rightarrow> organization \<Rightarrow> ident \<Rightarrow> appointmentQuery \<Rightarrow> appointmentWhere" where
  "whereConditions usr org userId q =
     (let w0 = \<lparr>w_organizationId = o_id org, w_doctorId = None, w_appointmentDate = None,
                w_clinicId = None, w_status = None\<rparr>;
          w1 = (if u_role usr = ''DOCTOR'' then w0\<lparr>w_doctorId := Some userId\<rparr> else w0);
          w2 = (case q_date q of None \<Rightarrow> w1
                | Some (startDate, endDate) \<Rightarrow>
                    w1\<lparr>w_appointmentDate := Some (startDate, endDate)\<rparr>);
          w3 = (if truthy (q_doctor q) then w2\<lparr>w_doctorId := q_doctor q\<rparr> else w2);
          w4 = (if truthy (q_clinic q) then w3\<lparr>w_clinicId := q_clinic q\<rparr> else w3);
          w5 = (if truthy (q_status q) then w4\<lparr>w_status := q_status q\<rparr> else w4)
      in w5)"

definition getAppointments :: "db \<Rightarrow> ident \<Rightarrow> appointmentQuery \<Rightarrow> appointment list response" where
  "getAppointments d userId q =
     (case findUser d userId of
        None \<Rightarrow> Error 500 ''Failed to fetch appointments''
      | Some usr \<Rightarrow>
     (case organizationOf d usr of
        None \<Rightarrow> Error 404 ''Organization not found''
      | Some org \<Rightarrow>
          Json 200 (sort_key a_appointmentDate
            (filter (matchesWhere d (whereConditions usr org userId q)) (appointments d)))))"

text \<open>The conflict query shared by \<^verbatim>\<open>createAppointment\<close> and \<^verbatim>\<open>updateAppointment\<close>:
  another appointment of the doctor, SCHEDULED or CONFIRMED, that starts within
  \<^verbatim>\<open>duration\<close> minutes before or after the requested instant (both ends included).
  \<open>excl\<close> is the \<^verbatim>\<open>id: {not: id}\<close> of the update; the create has none.\<close>

definition conflicting :: "ident \<Rightarrow> ident option \<Rightarrow> instant \<Rightarrow> int \<Rightarrow> appointment \<Rightarrow> bool" where
  "conflicting doctorId excl t dur a =
     (a_doctorId a = doctorId \<and>
      (case excl of None \<Rightarrow> True | Some i \<Rightarrow> a_id a \<noteq> i) \<and>
      t - dur * 60 * 1000 \<le> a_appointmentDate a \<and>
      a_appointmentDate a \<le> t + dur * 60 * 1000 \<and>
      a_status a \<in> set [''SCHEDULED'', ''CONFIRMED''])"

text \<open>\<^verbatim>\<open>POST /api/appointments\<close>. The body is read as the route hands it over:
  patient, doctor and clinic ids are present and the date is taken as parsed (the instant
  of \<^verbatim>\<open>new Date(appointmentDate)\<close>). \<open>now\<close> is the instant of \<^verbatim>\<open>new Date()\<close> and
  \<open>newId\<close> the identifier the store generates for the new row.\<close>

record appointmentBody =
  ab_patientId :: ident
  ab_doctorId :: ident
  ab_clinicId :: ident
  ab_appointmentDate :: instant
  ab_duration :: "int option"
  ab_notes :: "string option"

definition createAppointment ::
    "db \<Rightarrow> ident \<Rightarrow> appointmentBody \<Rightarrow> instant \<Rightarrow> ident \<Rightarrow> appointment response \<times> db" where
  "createAppointment d userId b now newId =
     (case findUser d userId of
        None \<Rightarrow> (Error 500 ''Failed to create appointment'', d)
      | Some usr \<Rightarrow>
     (case organizationOf d usr of
        None \<Rightarrow> (Error 404 ''Organization not found'', d)
      | Some org \<Rightarrow>
          if findFirst (\<lambda>p. p_id p = ab_patientId b \<and> clinicInOrg d (o_id org) (p_clinicId p))
               (patients d) = None
          then (Error 400 ''Invalid patient selected'', d)
          else if findFirst (\<lambda>u. u_id u = ab_doctorId b \<and> u_organizationId u = Some (o_id org) \<and>
                                 u_role u = ''DOCTOR'') (users d) = None
          then (Error 400 ''Invalid doctor selected'', d)
          else if findFirst (\<lambda>c. c_id c = ab_clinicId b \<and> c_organizationId c = o_id org)
                    (clinics d) = None
          then (Error 400 ''Invalid clinic selected'', d)
          else if ab_appointmentDate b \<le> now
          then (Error 400 ''Appointment must be scheduled for a future date and time'', d)
          else if findFirst (conflicting (ab_doctorId b) None (ab_appointmentDate b)
                               (numOr (ab_duration b) 30)) (appointments d) \<noteq> None
          then (Error 400 ''Doctor has a conflicting appointment at this time'', d)
          else
            (let appointment = \<lparr>a_id = newId, a_patientId = ab_patientId b,
                    a_doctorId = ab_doctorId b, a_clinicId = ab_clinicId b,
                    a_appointmentDate = ab_appointmentDate b,
                    a_duration = numOr (ab_duration b) 30, a_notes = ab_notes b,
                    a_status = ''SCHEDULED''\<rparr>
             in (Json 201 appointment, d\<lparr>appointments := appointments d @ [appointment]\<rparr>))))"


text \<open>\<^verbatim>\<open>PUT /api/appointments/:id\<close>. Every body field may be absent; an absent field
  (\<^verbatim>\<open>undefined\<close>) leaves the column as it is. The body's \<^verbatim>\<open>appointmentDate\<close> is a JSON
  value and the stored one a \<^verbatim>\<open>Date\<close> object, so the test
  \<^verbatim>\<open>appointmentDate !== existingAppointment.appointmentDate\<close> holds whenever the body
  carries a date.\<close>

record appointmentUpdate =
  au_patientId :: "ident option"
  au_doctorId :: "ident option"
  au_clinicId :: "ident option"
  au_appointmentDate :: "instant option"
  au_duration :: "int option"
  au_notes :: "string option"
  au_status :: "string option"

definition applyAppointmentUpdate :: "appointmentUpdate \<Rightarrow> appointment \<Rightarrow> appointment" where
  "applyAppointmentUpdate b a =
     a\<lparr>a_patientId := (case au_patientId b of None \<Rightarrow> a_patientId a | Some v \<Rightarrow> v),
       a_doctorId := (case au_doctorId b of None \<Rightarrow> a_doctorId a | Some v \<Rightarrow> v),
       a_clinicId := (case au_clinicId b of None \<Rightarrow> a_clinicId a | Some v \<Rightarrow> v),
       a_appointmentDate :=
         (case au_appointmentDate b of None \<Rightarrow> a_appointmentDate a | Some v \<Rightarrow> v),
       a_duration := (case au_duration b of None \<Rightarrow> a_duration a | Some v \<Rightarrow> v),
       a_notes := (case au_notes b of None \<Rightarrow> a_notes a | Some v \<Rightarrow> Some v),
       a_status := (case au_status b of None \<Rightarrow> a_status a | Some v \<Rightarrow> v)\<rparr>"

definition validStatuses :: "string list" where
  "validStatuses =
     [''SCHEDULED'', ''CONFIRMED'', ''IN_PROGRESS'', ''COMPLETED'', ''CANCELLED'', ''NO_SHOW'']"

text \<open>The closing \<^verbatim>\<open>prisma.appointment.update\<close> and the reply with the updated row.\<close>

definition storeAppointmentUpdate ::
    "db \<Rightarrow> ident \<Rightarrow> appointmentUpdate \<Rightarrow> appointment \<Rightarrow> appointment response \<times> db" where
  "storeAppointmentUpdate d i b existingAppointment =
     (Json 200 (applyAppointmentUpdate b existingAppointment),
      d\<lparr>appointments :=
          updateMany (\<lambda>x. a_id x = i) (applyAppointmentUpdate b) (appointments d)\<rparr>)"

definition updateAppointment ::
    "db \<Rightarrow> ident \<Rightarrow> ident \<Rightarrow> appointmentUpdate \<Rightarrow> instant \<Rightarrow> appointment response \<times> db" where
  "updateAppointment d userId i b now =
     (case findUser d userId of
        None \<Rightarrow> (Error 404 ''Appointment not found'', d)
      | Some usr \<Rightarrow>
     (case organizationOf d usr of
        None \<Rightarrow> (Error 404 ''Organization not found'', d)
      | Some org \<Rightarrow>
     (case findFirst (appointmentScope d usr org userId i) (appointments d) of
        None \<Rightarrow> (Error 404 ''Appointment not found'', d)
      | Some existingAppointment \<Rightarrow>
          if (case au_status b of None \<Rightarrow> False
              | Some st \<Rightarrow> st \<noteq> [] \<and> st \<notin> set validStatuses)
          then (Error 400 ''Invalid appointment status'', d)
          else
            (case au_appointmentDate b of
               None \<Rightarrow> storeAppointmentUpdate d i b existingAppointment
             | Some t \<Rightarrow>
                 if t \<le> now
                 then (Error 400 ''Appointment must be scheduled for a future date and time'', d)
                 else if findFirst
                           (conflicting
                              (strOr (au_doctorId b) (a_doctorId existingAppointment))
                              (Some i) t
                              (numOr (au_duration b) (a_duration existingAppointment)))
                           (appointments d) \<noteq> None
                 then (Error 400 ''Doctor has a conflicting appointment at this time'', d)
                 else storeAppointmentUpdate d i b existingAppointment))))"

text \<open>\<^verbatim>\<open>DELETE /api/appointments/:id\<close>. A missing user row makes \<^verbatim>\<open>user.organization\<close>
  throw, which the handler's \<^verbatim>\<open>catch\<close> answers.\<close>

definition deleteAppointment :: "db \<Rightarrow> ident \<Rightarrow> ident \<Rightarrow> instant \<Rightarrow> string response \<times> db" where
  "deleteAppointment d userId i now =
     (case findUser d userId of
        None \<Rightarrow> (Error 400 ''Cannot cancel appointment'', d)
      | Some usr \<Rightarrow>
     (case organizationOf d usr of
        None \<Rightarrow> (Error 404 ''Organization not found'', d)
      | Some org \<Rightarrow>
     (case findFirst (appointmentScope d usr org userId i) (appointments d) of
        None \<Rightarrow> (Error 404 ''Appointment not found'', d)
      | Some a \<Rightarrow>
          if a_appointmentDate a \<le> now
          then (Error 400 ''Cannot cancel past appointments'', d)
          else if a_status a \<in> set [''COMPLETED'', ''CANCELLED'']
          then (Error 400 ''Appointment is already completed or cancelled'', d)
          else (Json 200 ''Appointment cancelled successfully'',
                d\<lparr>appointments :=
                    updateMany (\<lambda>x. a_id x = i) (\<lambda>x. x\<lparr>a_status := ''CANCELLED''\<rparr>)
                      (appointments d)\<rparr>))))"

section \<open>Patients, clinics and EHR records\<close>

text \<open>\<^verbatim>\<open>/^[6-9]\d{9}$/.test(phone)\<close>: ten ASCII digits, the first from 6 to 9.\<close>

definition isDigit :: "char \<Rightarrow> bool" where
  "isDigit c = (c \<in> set ''0123456789'')"

definition phoneRegex :: "string \<Rightarrow> bool" where
  "phoneRegex s =
     (case s of
        [] \<Rightarrow> False
      | c # cs \<Rightarrow> c \<in> set ''6789'' \<and> length cs = 9 \<and> list_all isDigit cs)"

text \<open>Of a patient row the model keeps what the handlers read (id, name, phone, email,
  clinic); the other columns are free attributes that no check looks at.\<close>

record patientBody =
  pb_name :: "string option"
  pb_phone :: "string option"
  pb_email :: "string option"
  pb_clinicId :: "ident option"

definition samePhoneInOrg :: "db \<Rightarrow> ident \<Rightarrow> string \<Rightarrow> patient \<Rightarrow> bool" where
  "samePhoneInOrg d oid phone p = (p_phone p = phone \<and> clinicInOrg d oid (p_clinicId p))"

text \<open>\<^verbatim>\<open>POST /api/patients\<close>. The body is read as the route hands it over: name, phone
  and clinicId are present (the route's validation demands them); the phone is tested
  again by the handler.\<close>

record patientCreate =
  pc_name :: string
  pc_phone :: string
  pc_email :: "string option"
  pc_clinicId :: ident

definition createPatient :: "db \<Rightarrow> ident \<Rightarrow> patientCreate \<Rightarrow> ident \<Rightarrow> patient response \<times> db" where
  "createPatient d userId b newId =
     (case findUser d userId of
        None \<Rightarrow> (Error 500 ''Failed to create patient'', d)
      | Some usr \<Rightarrow>
     (case organizationOf d usr of
        None \<Rightarrow> (Error 404 ''Organization not found'', d)
      | Some org \<Rightarrow>
          if \<not> phoneRegex (pc_phone b)
          then (Error 400 ''Invalid phone number format. Please enter a valid 10-digit Indian mobile number.'', d)
          else
     (case findFirst (samePhoneInOrg d (o_id org) (pc_phone b)) (patients d) of
        Some existingPatient \<Rightarrow>
          (ErrorExisting 400 ''Patient with this phone number already exists''
             (p_id existingPatient) (p_name existingPatient) (p_phone existingPatient), d)
      | None \<Rightarrow>
          if findFirst (\<lambda>c. c_id c = pc_clinicId b \<and> c_organizationId c = o_id org)
               (clinics d) = None
          then (Error 400 ''Invalid clinic selected'', d)
          else
            (let patient = \<lparr>p_id = newId, p_name = pc_name b, p_phone = pc_phone b,
                    p_email = pc_email b, p_clinicId = pc_clinicId b\<rparr>
             in (Json 201 patient, d\<lparr>patients := patients d @ [patient]\<rparr>)))))"


definition patientScope :: "db \<Rightarrow> organization \<Rightarrow> ident \<Rightarrow> patient \<Rightarrow> bool" where
  "patientScope d org i p = (p_id p = i \<and> clinicInOrg d (o_id org) (p_clinicId p))"


text \<open>\<^verbatim>\<open>PUT /api/patients/:id\<close>.\<close>

definition applyPatientUpdate :: "patientBody \<Rightarrow> patient \<Rightarrow> patient" where
  "applyPatientUpdate b p =
     p\<lparr>p_name := (case pb_name b of None \<Rightarrow> p_name p | Some v \<Rightarrow> v),
       p_phone := (case pb_phone b of None \<Rightarrow> p_phone p | Some v \<Rightarrow> v),
       p_email := (case pb_email b of None \<Rightarrow> p_email p | Some v \<Rightarrow> Some v),
       p_clinicId := (case pb_clinicId b of None \<Rightarrow> p_clinicId p | Some v \<Rightarrow> v)\<rparr>"

definition storePatientUpdate ::
    "db \<Rightarrow> ident \<Rightarrow> patientBody \<Rightarrow> patient \<Rightarrow> patient response \<times> db" where
  "storePatientUpdate d i b existingPatient =
     (Json 200 (applyPatientUpdate b existingPatient),
      d\<lparr>patients := updateMany (\<lambda>x. p_id x = i) (applyPatientUpdate b) (patients d)\<rparr>)"

definition updatePatient :: "db \<Rightarrow> ident \<Rightarrow> ident \<Rightarrow> patientBody \<Rightarrow> patient response \<times> db" where
  "updatePatient d userId i b =
     (case findUser d userId of
        None \<Rightarrow> (Error 404 ''Patient not found'', d)
      | Some usr \<Rightarrow>
     (case organizationOf d usr of
        None \<Rightarrow> (Error 404 ''Organization not found'', d)
      | Some org \<Rightarrow>
     (case findFirst (patientScope d org i) (patients d) of
        None \<Rightarrow> (Error 404 ''Patient not found'', d)
      | Some existingPatient \<Rightarrow>
          if truthy (pb_phone b) \<and> pb_phone b \<noteq> Some (p_phone existingPatient)
          then
            (if \<not> phoneRegex (strOr (pb_phone b) [])
             then (Error 400 ''Invalid phone number format. Please enter a valid 10-digit Indian mobile number.'', d)
             else if findFirst (\<lambda>p. samePhoneInOrg d (o_id org) (strOr (pb_phone b) []) p \<and> p_id p \<noteq> i)
                       (patients d) \<noteq> None
             then (Error 400 ''Another patient with this phone number already exists'', d)
             else storePatientUpdate d i b existingPatient)
          else storePatientUpdate d i b existingPatient)))"











section \<open>Access middleware\<close>

text \<open>\<^verbatim>\<open>authenticateToken\<close> of \<^verbatim>\<open>middleware/auth.js\<close>. Its input is what the
  \<^verbatim>\<open>Authorization\<close> header and \<^verbatim>\<open>jwt.verify\<close> (a library) yield: no token, a token
  the library rejects with \<^verbatim>\<open>JsonWebTokenError\<close> or \<^verbatim>\<open>TokenExpiredError\<close>, or the
  decoded payload, of which the middleware reads \<^verbatim>\<open>userId\<close> (\<open>None\<close> when the payload has
  none; the lookup then throws into the \<^verbatim>\<open>catch\<close>). A middleware either calls
  \<^verbatim>\<open>next()\<close> or replies with a status, an error text and a code.

  On success the middleware assigns \<^verbatim>\<open>req.user\<close> a fresh object. An object is the list of
  its properties with their values, and reading a property the object does not have
  yields \<^verbatim>\<open>undefined\<close>: \<open>None\<close> of \<open>map_of\<close>. The properties assigned are \<^verbatim>\<open>id\<close>,
  \<^verbatim>\<open>email\<close>, \<^verbatim>\<open>role\<close>, \<^verbatim>\<open>name\<close>, \<^verbatim>\<open>organizationId\<close>, and three that are not strings
  and that nothing below reads (\<^verbatim>\<open>specialization\<close>, a column the model does not carry,
  and \<^verbatim>\<open>organization\<close> and \<^verbatim>\<open>clinics\<close>, projections of the organization's row and of
  its clinics).\<close>

datatype 'a gate = Next 'a | Deny nat string string

datatype credential =
  TokenMissing
| JsonWebTokenError
| TokenExpiredError
| Decoded "ident option"

type_synonym reqUser = "(string \<times> string) list"

definition authenticateToken :: "db \<Rightarrow> credential \<Rightarrow> reqUser gate" where
  "authenticateToken d cred =
     (case cred of
        TokenMissing \<Rightarrow> Deny 401 ''Access token required'' ''TOKEN_MISSING''
      | JsonWebTokenError \<Rightarrow> Deny 401 ''Invalid token'' ''INVALID_TOKEN''
      | TokenExpiredError \<Rightarrow> Deny 401 ''Token expired'' ''TOKEN_EXPIRED''
      | Decoded None \<Rightarrow> Deny 500 ''Authentication failed'' ''AUTH_ERROR''
      | Decoded (Some uid) \<Rightarrow>
     (case findUser d uid of
        None \<Rightarrow> Deny 401 ''User not found'' ''USER_NOT_FOUND''
      | Some usr \<Rightarrow>
          if \<not> u_isEmailVerified usr
          then Deny 403 ''Email verification required'' ''EMAIL_NOT_VERIFIED''
          else if \<not> truthy (u_organizationId usr)
          then Deny 403 ''User must belong to an organization'' ''NO_ORGANIZATION''
          else Next [(''id'', u_id usr), (''email'', u_email usr), (''role'', u_role usr),
                     (''name'', u_name usr),
                     (''organizationId'', strOr (u_organizationId usr) [])]))"

text \<open>\<^verbatim>\<open>requireAdmin\<close>: \<open>None\<close> is a request on which no \<^verbatim>\<open>req.user\<close> was set.\<close>

definition requireAdmin :: "reqUser option \<Rightarrow> reqUser gate" where
  "requireAdmin reqUser =
     (case reqUser of
        None \<Rightarrow> Deny 401 ''Authentication required'' ''AUTH_REQUIRED''
      | Some ru \<Rightarrow>
          if map_of ru ''role'' \<noteq> Some ''ADMIN''
          then Deny 403 ''Admin access required'' ''ADMIN_REQUIRED''
          else Next ru)"

text \<open>\<^verbatim>\<open>verifyPatientAccess\<close> and \<^verbatim>\<open>verifyClinicAccess\<close> are defined and exported by
  \<^verbatim>\<open>middleware/auth.js\<close>, and no route of the repository mounts them. \<open>organizationId\<close>
  is \<^verbatim>\<open>req.user.organizationId\<close>; the id is what the middleware resolves from the
  request, \<^verbatim>\<open>req.params.patientId || req.params.id || req.body.patientId\<close> for the patient
  and \<^verbatim>\<open>req.params.clinicId || req.body.clinicId\<close> for the clinic, \<open>None\<close> when all are
  absent.\<close>

definition verifyPatientAccess :: "db \<Rightarrow> ident \<Rightarrow> ident option \<Rightarrow> patient gate" where
  "verifyPatientAccess d organizationId patientId =
     (if \<not> truthy patientId then Deny 400 ''Patient ID required'' ''PATIENT_ID_REQUIRED''
      else
        (case findFirst (\<lambda>p. Some (p_id p) = patientId \<and> clinicInOrg d organizationId (p_clinicId p))
                (patients d) of
           None \<Rightarrow> Deny 403 ''Access denied to this patient'' ''PATIENT_ACCESS_DENIED''
         | Some p \<Rightarrow> Next p))"

definition verifyClinicAccess :: "db \<Rightarrow> ident \<Rightarrow> ident option \<Rightarrow> clinic gate" where
  "verifyClinicAccess d organizationId clinicId =
     (if \<not> truthy clinicId then Deny 400 ''Clinic ID required'' ''CLINIC_ID_REQUIRED''
      else
        (case findFirst (\<lambda>c. Some (c_id c) = clinicId \<and> c_organizationId c = organizationId)
                (clinics d) of
           None \<Rightarrow> Deny 403 ''Access denied to this clinic'' ''CLINIC_ACCESS_DENIED''
         | Some c \<Rightarrow> Next c))"

section \<open>Organizations: invitations and membership\<close>

text \<open>\<^verbatim>\<open>POST /api/organizations/invite\<close>. \<open>token\<close> is the random token and \<open>newId\<close> the
  generated row id; \<open>mailed\<close> tells whether \<^verbatim>\<open>sendEmail\<close> returned (it is an external
  service: when it throws, the invite row is already stored).\<close>

definition inviteUser ::
    "db \<Rightarrow> ident \<Rightarrow> string \<Rightarrow> string option \<Rightarrow> instant \<Rightarrow> string \<Rightarrow> ident \<Rightarrow> bool
       \<Rightarrow> string response \<times> db" where
  "inviteUser d userId email role now token newId mailed =
     (case findUser d userId of
        None \<Rightarrow> (Error 500 ''Failed to send invitation'', d)
      | Some usr \<Rightarrow>
     (case organizationOf d usr of
        None \<Rightarrow> (Error 404 ''Organization not found'', d)
      | Some org \<Rightarrow>
          if findFirst (\<lambda>u. u_email u = email) (users d) \<noteq> None
          then (Error 400 ''User with this email already exists'', d)
          else if findFirst (\<lambda>v. i_email v = email \<and> i_organizationId v = o_id org \<and>
                                  \<not> i_isUsed v \<and> now < i_expiresAt v) (invites d) \<noteq> None
          then (Error 400 ''Invitation already sent to this email'', d)
          else
            (let expiresAt = now + 7 * 24 * 60 * 60 * 1000;
                 invite = \<lparr>i_id = newId, i_email = email, i_token = token,
                         i_role = strOr role ''DOCTOR'', i_organizationId = o_id org,
                         i_invitedBy = userId, i_isUsed = False, i_expiresAt = expiresAt\<rparr>;
                 d' = d\<lparr>invites := invites d @ [invite]\<rparr>
             in if mailed then (Json 200 ''Invitation sent successfully'', d')
                else (Error 500 ''Failed to send invitation'', d'))))"

text \<open>\<^verbatim>\<open>POST /api/organizations/join/:token\<close>. The invite is read together with its
  organization, which the success reply shows; a missing user row makes
  \<^verbatim>\<open>user.organizationId\<close> throw into the handler's \<^verbatim>\<open>catch\<close>, and so does a missing
  organization row when the reply is built, after both updates.\<close>

definition joinOrganization ::
    "db \<Rightarrow> ident \<Rightarrow> string \<Rightarrow> instant \<Rightarrow> organization response \<times> db" where
  "joinOrganization d userId token now =
     (case findFirst (\<lambda>v. i_token v = token) (invites d) of
        None \<Rightarrow> (Error 400 ''Invalid invitation token'', d)
      | Some invite \<Rightarrow>
          if i_isUsed invite then (Error 400 ''Invitation has already been used'', d)
          else if i_expiresAt invite < now then (Error 400 ''Invitation has expired'', d)
          else
     (case findUser d userId of
        None \<Rightarrow> (Error 400 ''Invalid or expired invitation'', d)
      | Some usr \<Rightarrow>
          if truthy (u_organizationId usr)
          then (Error 400 ''User already belongs to an organization'', d)
          else
            (let d1 = d\<lparr>users :=
                         updateMany (\<lambda>u. u_id u = userId)
                           (\<lambda>u. u\<lparr>u_organizationId := Some (i_organizationId invite),
                                  u_role := i_role invite\<rparr>) (users d)\<rparr>;
                 d2 = d1\<lparr>invites :=
                          updateMany (\<lambda>v. i_id v = i_id invite) (\<lambda>v. v\<lparr>i_isUsed := True\<rparr>)
                            (invites d1)\<rparr>
             in (case findFirst (\<lambda>g. o_id g = i_organizationId invite) (organizations d) of
                   None \<Rightarrow> (Error 400 ''Invalid or expired invitation'', d2)
                 | Some org \<Rightarrow> (Json 200 org, d2)))))"

text \<open>\<^verbatim>\<open>DELETE /api/organizations/users/:userId\<close>.\<close>

definition removeUserFromOrganization :: "db \<Rightarrow> ident \<Rightarrow> ident \<Rightarrow> string response \<times> db" where
  "removeUserFromOrganization d adminUserId targetUserId =
     (case findUser d adminUserId of
        None \<Rightarrow> (Error 400 ''Cannot remove user'', d)
      | Some adminUser \<Rightarrow>
     (case organizationOf d adminUser of
        None \<Rightarrow> (Error 404 ''Organization not found'', d)
      | Some org \<Rightarrow>
     (case findFirst (\<lambda>u. u_id u = targetUserId \<and> u_organizationId u = Some (o_id org))
             (users d) of
        None \<Rightarrow> (Error 404 ''User not found in organization'', d)
      | Some targetUser \<Rightarrow>
          if u_role targetUser = ''ADMIN'' \<and>
             count (\<lambda>u. u_organizationId u = Some (o_id org) \<and> u_role u = ''ADMIN'') (users d) \<le> 1
          then (Error 400 ''Cannot remove the last admin from organization'', d)
          else (Json 200 ''User removed from organization'',
                d\<lparr>users :=
                    updateMany (\<lambda>u. u_id u = targetUserId) (\<lambda>u. u\<lparr>u_organizationId := None\<rparr>)
                      (users d)\<rparr>))))"

section \<open>Backup and restore\<close>

text \<open>\<^verbatim>\<open>generateLocalBackup\<close> of \<^verbatim>\<open>utils/backup.js\<close> reads the organization row by id
  together with everything \<^verbatim>\<open>include\<close> names: its users, its clinics with their patients
  and each patient's appointments and EHR records, its add-on rows, subscriptions, backups
  and invites; the nesting follows the foreign keys. Of a user the selected columns are
  kept (the row without its organization id is the row of the model, whose organization
  is the one fetched); the doctor attached to an appointment or EHR record and the
  catalogue entry attached to an add-on row are projections of other rows and are not
  repeated. The helper throws when no organization has the id. \<open>backupDate\<close> is the
  clock when the snapshot is taken.\<close>

record patientSnapshot =
  ps_patient :: patient
  ps_appointments :: "appointment list"
  ps_ehrRecords :: "ehrRecord list"

record clinicSnapshot =
  cs_clinic :: clinic
  cs_patients :: "patientSnapshot list"

record organizationSnapshot =
  os_organization :: organization
  os_users :: "user list"
  os_clinics :: "clinicSnapshot list"
  os_organizationAddOns :: "organizationAddOn list"
  os_subscriptions :: "subscription list"
  os_backups :: "backup list"
  os_invites :: "invite list"

record localBackup =
  lb_organization :: organizationSnapshot
  lb_backupDate :: instant
  lb_version :: string

definition includePatient :: "db \<Rightarrow> patient \<Rightarrow> patientSnapshot" where
  "includePatient d p =
     \<lparr>ps_patient = p,
      ps_appointments = filter (\<lambda>a. a_patientId a = p_id p) (appointments d),
      ps_ehrRecords = filter (\<lambda>e. e_patientId e = p_id p) (ehrRecords d)\<rparr>"

definition includeClinic :: "db \<Rightarrow> clinic \<Rightarrow> clinicSnapshot" where
  "includeClinic d c =
     \<lparr>cs_clinic = c,
      cs_patients = map (includePatient d) (filter (\<lambda>p. p_clinicId p = c_id c) (patients d))\<rparr>"

definition includeOrganization :: "db \<Rightarrow> organization \<Rightarrow> organizationSnapshot" where
  "includeOrganization d g =
     \<lparr>os_organization = g,
      os_users = filter (\<lambda>u. u_organizationId u = Some (o_id g)) (users d),
      os_clinics = map (includeClinic d) (filter (\<lambda>c. c_organizationId c = o_id g) (clinics d)),
      os_organizationAddOns = filter (\<lambda>x. oa_organizationId x = o_id g) (organizationAddOns d),
      os_subscriptions = filter (\<lambda>x. s_organizationId x = o_id g) (subscriptions d),
      os_backups = filter (\<lambda>x. b_organizationId x = o_id g) (backups d),
      os_invites = filter (\<lambda>x. i_organizationId x = o_id g) (invites d)\<rparr>"

definition generateLocalBackup :: "db \<Rightarrow> ident \<Rightarrow> instant \<Rightarrow> localBackup option" where
  "generateLocalBackup d organizationId backupDate =
     (case findFirst (\<lambda>g. o_id g = organizationId) (organizations d) of
        None \<Rightarrow> None
      | Some organization \<Rightarrow>
          Some \<lparr>lb_organization = includeOrganization d organization,
                lb_backupDate = backupDate, lb_version = ''1.0.0''\<rparr>)"

text \<open>The payload of a restore, \<^verbatim>\<open>req.body.backupData\<close>. A key that is absent or falsy is
  \<open>None\<close>; a key that is present holds an array (an empty array is truthy).

  \<^verbatim>\<open>restoreFromBackup\<close> of \<^verbatim>\<open>utils/backup.js\<close> is a placeholder: it reads nothing from
  the store and writes nothing to it, waits, and returns the lengths of the three arrays
  of the payload, \<^verbatim>\<open>backupData.patients?.length || 0\<close> and likewise for the other two.
  Nothing in its body throws.\<close>

record backupData =
  bd_organization :: "organization option"
  bd_patients :: "patient list option"
  bd_appointments :: "appointment list option"
  bd_ehrRecords :: "ehrRecord list option"

record restoreResult =
  rr_patients :: "int option"
  rr_appointments :: "int option"
  rr_ehrRecords :: "int option"
  rr_success :: bool

definition lengthOr0 :: "'a list option \<Rightarrow> int" where
  "lengthOr0 xs = numOr (map_option (\<lambda>ys. int (length ys)) xs) 0"

definition restoreFromBackup :: "backupData \<Rightarrow> ident \<Rightarrow> restoreResult" where
  "restoreFromBackup backupData organizationId =
     \<lparr>rr_patients = Some (lengthOr0 (bd_patients backupData)),
      rr_appointments = Some (lengthOr0 (bd_appointments backupData)),
      rr_ehrRecords = Some (lengthOr0 (bd_ehrRecords backupData)),
      rr_success = True\<rparr>"

text \<open>\<^verbatim>\<open>POST /api/backup/restore\<close>. The handler checks the caller and the payload, takes
  the snapshot, stores it as a LOCAL Backup row whose \<^verbatim>\<open>fileUrl\<close> is
  \<^verbatim>\<open>JSON.stringify(currentBackup)\<close>, and then calls \<^verbatim>\<open>restoreFromBackup\<close>.
  \<^verbatim>\<open>JSON.stringify\<close> is the runtime's: the handler takes it as the function \<open>stringify\<close>
  from snapshots to texts. \<open>backupDate\<close> is the clock when the snapshot is taken, \<open>now\<close>
  the clock when the reply is built, \<open>newId\<close> the generated id of the Backup row.\<close>

record restoreSummary =
  rs_patients :: int
  rs_appointments :: int
  rs_ehrRecords :: int
  rs_restoreDate :: instant
  rs_restorePointId :: ident

definition restorePoint :: "db \<Rightarrow> ident \<Rightarrow> ident \<Rightarrow> string \<Rightarrow> ident \<Rightarrow> db" where
  "restorePoint d newId organizationId fileUrl userId =
     d\<lparr>backups := backups d @
         [\<lparr>b_id = newId, b_organizationId = organizationId, b_type = ''LOCAL'',
           b_fileUrl = fileUrl, b_createdBy = userId\<rparr>]\<rparr>"

definition restoreBackup ::
    "(localBackup \<Rightarrow> string) \<Rightarrow> db \<Rightarrow> ident \<Rightarrow> backupData option \<Rightarrow> instant \<Rightarrow> instant \<Rightarrow> ident
       \<Rightarrow> restoreSummary response \<times> db" where
  "restoreBackup stringify d userId backupData backupDate now newId =
     (case findUser d userId of
        None \<Rightarrow> (Error 400 ''Failed to restore backup'', d)
      | Some usr \<Rightarrow>
     (case organizationOf d usr of
        None \<Rightarrow> (Error 404 ''Organization not found'', d)
      | Some org \<Rightarrow>
     (case backupData of
        None \<Rightarrow> (Error 400 ''Backup data is required'', d)
      | Some bd \<Rightarrow>
          if bd_organization bd = None \<or> bd_patients bd = None \<or> bd_appointments bd = None
          then (Error 400 ''Invalid backup data format'', d)
          else
     (case generateLocalBackup d (o_id org) backupDate of
        None \<Rightarrow> (Error 400 ''Failed to restore backup'', d)
      | Some currentBackup \<Rightarrow>
          (let d1 = restorePoint d newId (o_id org) (stringify currentBackup) userId;
               restoreResult = restoreFromBackup bd (o_id org)
           in (Json 200
                 \<lparr>rs_patients = numOr (rr_patients restoreResult) 0,
                  rs_appointments = numOr (rr_appointments restoreResult) 0,
                  rs_ehrRecords = numOr (rr_ehrRecords restoreResult) 0,
                  rs_restoreDate = now, rs_restorePointId = newId\<rparr>, d1))))))"

section \<open>Routes\<close>

text \<open>A route runs its middleware in order and then the handler:
  \<^verbatim>\<open>router.get('/', authenticateToken, getAppointments)\<close> for the list of appointments,
  \<^verbatim>\<open>router.delete('/:id', authenticateToken, requireAdmin, deleteClinic)\<close> for a clinic and
  \<^verbatim>\<open>router.post('/restore', authenticateToken, requireAdmin, restoreBackup)\<close>. A reply of
  a middleware ends the request and leaves the store as it is; its code is not part of a
  response. The handler then reads \<^verbatim>\<open>req.user.userId\<close> from the object the middleware
  assigned. When the property is \<^verbatim>\<open>undefined\<close>, the handler's first query
  \<^verbatim>\<open>prisma.user.findUnique({where: {id: undefined}})\<close> is refused by the client with an
  exception, and the handler's \<^verbatim>\<open>catch\<close> replies.\<close>

definition getAppointmentsRoute :: "db \<Rightarrow> credential \<Rightarrow> appointmentQuery \<Rightarrow> appointment list response" where
  "getAppointmentsRoute d cred q =
     (case authenticateToken d cred of
        Deny n e c \<Rightarrow> Error n e
      | Next ru \<Rightarrow>
     (case map_of ru ''userId'' of
        None \<Rightarrow> Error 500 ''Failed to fetch appointments''
      | Some userId \<Rightarrow> getAppointments d userId q))"


definition restoreBackupRoute ::
    "(localBackup \<Rightarrow> string) \<Rightarrow> db \<Rightarrow> credential \<Rightarrow> backupData option \<Rightarrow> instant \<Rightarrow> instant \<Rightarrow> ident
       \<Rightarrow> restoreSummary response \<times> db" where
  "restoreBackupRoute stringify d cred backupData backupDate now newId =
     (case authenticateToken d cred of
        Deny n e c \<Rightarrow> (Error n e, d)
      | Next ru \<Rightarrow>
     (case requireAdmin (Some ru) of
        Deny n e c \<Rightarrow> (Error n e, d)
      | Next ru' \<Rightarrow>
     (case map_of ru' ''userId'' of
        None \<Rightarrow> (Error 400 ''Failed to restore backup'', d)
      | Some userId \<Rightarrow> restoreBackup stringify d userId backupData backupDate now newId)))"

section \<open>Payment webhook\<close>

text \<open>\<^verbatim>\<open>POST /api/addons/razorpay-webhook\<close>. \<^verbatim>\<open>verifyRazorpayWebhook\<close> of
  \<^verbatim>\<open>utils/razorpay.js\<close> is a placeholder that returns true. Of the body the handler
  reads \<^verbatim>\<open>event\<close> and \<^verbatim>\<open>payload.subscription.id\<close>; the latter is \<open>None\<close> when
  \<^verbatim>\<open>payload.subscription\<close> is missing, and reading it then throws into the \<^verbatim>\<open>catch\<close>.\<close>

record webhookBody =
  wb_event :: string
  wb_subscriptionId :: "string option"

definition verifyRazorpayWebhook :: "webhookBody \<Rightarrow> string option \<Rightarrow> bool" where
  "verifyRazorpayWebhook webhookBody webhookSignature = True"

definition setSubscriptions ::
    "db \<Rightarrow> string \<Rightarrow> (subscription \<Rightarrow> subscription) \<Rightarrow> bool \<Rightarrow> db" where
  "setSubscriptions d sid f active =
     (let d1 = d\<lparr>subscriptions :=
                  updateMany (\<lambda>s. s_razorpaySubscriptionId s = sid) f (subscriptions d)\<rparr>
      in (case findFirst (\<lambda>s. s_razorpaySubscriptionId s = sid) (subscriptions d1) of
            None \<Rightarrow> d1
          | Some subscription \<Rightarrow>
              d1\<lparr>organizationAddOns :=
                  updateMany (\<lambda>x. oa_organizationId x = s_organizationId subscription)
                    (\<lambda>x. x\<lparr>oa_isActive := active\<rparr>) (organizationAddOns d1)\<rparr>))"

definition handleRazorpayWebhook ::
    "db \<Rightarrow> webhookBody \<Rightarrow> string option \<Rightarrow> instant \<Rightarrow> string response \<times> db" where
  "handleRazorpayWebhook d webhookBody webhookSignature now =
     (if \<not> verifyRazorpayWebhook webhookBody webhookSignature
      then (Error 400 ''Invalid webhook signature'', d)
      else if wb_event webhookBody = ''subscription.activated'' then
        (case wb_subscriptionId webhookBody of
           None \<Rightarrow> (Error 400 ''Webhook verification failed'', d)
         | Some sid \<Rightarrow>
             (Json 200 ''ok'',
              setSubscriptions d sid (\<lambda>s. s\<lparr>s_status := ''ACTIVE''\<rparr>) True))
      else if wb_event webhookBody = ''subscription.cancelled'' then
        (case wb_subscriptionId webhookBody of
           None \<Rightarrow> (Error 400 ''Webhook verification failed'', d)
         | Some sid \<Rightarrow>
             (Json 200 ''ok'',
              setSubscriptions d sid
                (\<lambda>s. s\<lparr>s_status := ''CANCELLED'', s_endDate := Some now\<rparr>) False))
      else if wb_event webhookBody = ''payment.failed'' then
        (case wb_subscriptionId webhookBody of
           None \<Rightarrow> (Error 400 ''Webhook verification failed'', d)
         | Some sid \<Rightarrow>
             (case findFirst (\<lambda>s. s_razorpaySubscriptionId s = sid) (subscriptions d) of
                None \<Rightarrow> (Json 200 ''ok'', d)
              | Some failedSubscription \<Rightarrow>
                  if findFirst (\<lambda>g. o_id g = s_organizationId failedSubscription)
                       (organizations d) = None
                  then (Error 400 ''Webhook verification failed'', d)
                  else (Json 200 ''ok'', d)))
      else (Json 200 ''ok'', d))"

section \<open>The conflict of the specification\<close>

text \<open>The specification's words for a scheduling conflict, to be compared with the query
  of the handlers: the symmetric window \<open>[start - duration, start + duration]\<close> (the
  duration in minutes) contains the start of an appointment of the same doctor whose
  status is SCHEDULED or CONFIRMED.\<close>

definition specConflict :: "ident \<Rightarrow> instant \<Rightarrow> int \<Rightarrow> appointment \<Rightarrow> bool" where
  "specConflict doctorId start duration x =
     (a_doctorId x = doctorId \<and>
      (a_status x = ''SCHEDULED'' \<or> a_status x = ''CONFIRMED'') \<and>
      start - duration * 60000 \<le> a_appointmentDate x \<and>
      a_appointmentDate x \<le> start + duration * 60000)"

section \<open>Counting administrators, sequences of calls\<close>

text \<open>The number of ADMIN users of an organization, and removal calls run one after the
  other.\<close>

definition adminCount :: "db \<Rightarrow> ident \<Rightarrow> nat" where
  "adminCount d oid = count (\<lambda>u. u_organizationId u = Some oid \<and> u_role u = ''ADMIN'') (users d)"

fun removeAll :: "db \<Rightarrow> (ident \<times> ident) list \<Rightarrow> db" where
  "removeAll d [] = d"
| "removeAll d ((adminUserId, targetUserId) # calls) =
     removeAll (snd (removeUserFromOrganization d adminUserId targetUserId)) calls"

text \<open>Calls of the organization handlers, run one after the other: what may happen
  between the consumption or the expiry of an invite and a later attempt to use it.\<close>

datatype orgCall =
  Join ident string instant
| Invite ident string "string option" instant string ident bool
| Remove ident ident

fun runCall :: "db \<Rightarrow> orgCall \<Rightarrow> db" where
  "runCall d (Join userId token now) = snd (joinOrganization d userId token now)"
| "runCall d (Invite userId email role now token newId mailed) =
     snd (inviteUser d userId email role now token newId mailed)"
| "runCall d (Remove adminUserId targetUserId) =
     snd (removeUserFromOrganization d adminUserId targetUserId)"

fun runCalls :: "db \<Rightarrow> orgCall list \<Rightarrow> db" where
  "runCalls d [] = d"
| "runCalls d (c # cs) = runCalls (runCall d c) cs"

definition inviteDead :: "db \<Rightarrow> string \<Rightarrow> instant \<Rightarrow> bool" where
  "inviteDead d token now =
     (case findFirst (\<lambda>v. i_token v = token) (invites d) of
        None \<Rightarrow> False
      | Some v \<Rightarrow> i_isUsed v \<or> i_expiresAt v < now)"

section \<open>A sample store\<close>

text \<open>Two organizations. \<open>org1\<close> has one admin, two doctors and a staff member, one clinic
  with two patients; \<open>org2\<close> has two admins and a clinic with one patient, who has the
  phone number of a patient of \<open>org1\<close>. The clock of the examples stands at \<open>1000000\<close>.\<close>

definition sampleUsers :: "user list" where
  "sampleUsers =
     [\<lparr>u_id = ''admin1'', u_email = ''a1@x'', u_name = ''Asha'', u_role = ''ADMIN'',
       u_organizationId = Some ''org1'', u_isEmailVerified = True\<rparr>,
      \<lparr>u_id = ''doc1'', u_email = ''d1@x'', u_name = ''Dev'', u_role = ''DOCTOR'',
       u_organizationId = Some ''org1'', u_isEmailVerified = True\<rparr>,
      \<lparr>u_id = ''doc2'', u_email = ''d2@x'', u_name = ''Diya'', u_role = ''DOCTOR'',
       u_organizationId = Some ''org1'', u_isEmailVerified = True\<rparr>,
      \<lparr>u_id = ''staff1'', u_email = ''s1@x'', u_name = ''Sam'', u_role = ''STAFF'',
       u_organizationId = Some ''org1'', u_isEmailVerified = True\<rparr>,
      \<lparr>u_id = ''admin2'', u_email = ''a2@y'', u_name = ''Bela'', u_role = ''ADMIN'',
       u_organizationId = Some ''org2'', u_isEmailVerified = True\<rparr>,
      \<lparr>u_id = ''admin3'', u_email = ''a3@y'', u_name = ''Bina'', u_role = ''ADMIN'',
       u_organizationId = Some ''org2'', u_isEmailVerified = True\<rparr>,
      \<lparr>u_id = ''guest'', u_email = ''g@z'', u_name = ''Gul'', u_role = ''STAFF'',
       u_organizationId = None, u_isEmailVerified = True\<rparr>]"

definition sampleAppointments :: "appointment list" where
  "sampleAppointments =
     [\<lparr>a_id = ''ap1'', a_patientId = ''p1'', a_doctorId = ''doc1'', a_clinicId = ''c1'',
       a_appointmentDate = 90000000, a_duration = 30, a_notes = None,
       a_status = ''SCHEDULED''\<rparr>,
      \<lparr>a_id = ''ap2'', a_patientId = ''p2'', a_doctorId = ''doc2'', a_clinicId = ''c1'',
       a_appointmentDate = 95000000, a_duration = 30, a_notes = None,
       a_status = ''CONFIRMED''\<rparr>,
      \<lparr>a_id = ''ap3'', a_patientId = ''p1'', a_doctorId = ''doc1'', a_clinicId = ''c1'',
       a_appointmentDate = 500000, a_duration = 30, a_notes = None,
       a_status = ''SCHEDULED''\<rparr>,
      \<lparr>a_id = ''ap4'', a_patientId = ''p1'', a_doctorId = ''doc1'', a_clinicId = ''c1'',
       a_appointmentDate = 200000000, a_duration = 30, a_notes = None,
       a_status = ''CANCELLED''\<rparr>]"

definition sample :: db where
  "sample =
     \<lparr>organizations =
        [\<lparr>o_id = ''org1'', o_name = ''Alpha Care'', o_address = ''1 Main St''\<rparr>,
         \<lparr>o_id = ''org2'', o_name = ''Beta Health'', o_address = ''2 Side St''\<rparr>],
      users = sampleUsers,
      clinics =
        [\<lparr>c_id = ''c1'', c_name = ''Alpha Clinic'', c_address = ''1 Main St'',
          c_phone = ''9000000001'', c_organizationId = ''org1''\<rparr>,
         \<lparr>c_id = ''c2'', c_name = ''Beta Clinic'', c_address = ''2 Side St'',
          c_phone = ''9000000002'', c_organizationId = ''org2''\<rparr>],
      patients =
        [\<lparr>p_id = ''p1'', p_name = ''Ravi'', p_phone = ''9876543210'', p_email = None,
          p_clinicId = ''c1''\<rparr>,
         \<lparr>p_id = ''p2'', p_name = ''Rani'', p_phone = ''9123456780'', p_email = None,
          p_clinicId = ''c1''\<rparr>,
         \<lparr>p_id = ''p3'', p_name = ''Ron'', p_phone = ''9876543210'', p_email = None,
          p_clinicId = ''c2''\<rparr>],
      appointments = sampleAppointments,
      ehrRecords =
        [\<lparr>e_id = ''e1'', e_patientId = ''p1'', e_doctorId = ''doc1'', e_visitDate = 400000,
          e_chiefComplaint = ''Fever for two days''\<rparr>],
      invites =
        [\<lparr>i_id = ''inv1'', i_email = ''g@z'', i_token = ''tok1'', i_role = ''STAFF'',
          i_organizationId = ''org1'', i_invitedBy = ''admin1'', i_isUsed = False,
          i_expiresAt = 604900000\<rparr>],
      backups = [],
      organizationAddOns =
        [\<lparr>oa_id = ''oa1'', oa_organizationId = ''org1'', oa_addOnId = ''scribe'',
          oa_isActive = True, oa_usageCount = 5\<rparr>,
         \<lparr>oa_id = ''oa2'', oa_organizationId = ''org1'', oa_addOnId = ''analytics'',
          oa_isActive = True, oa_usageCount = 0\<rparr>,
         \<lparr>oa_id = ''oa3'', oa_organizationId = ''org2'', oa_addOnId = ''scribe'',
          oa_isActive = True, oa_usageCount = 7\<rparr>],
      subscriptions =
        [\<lparr>s_id = ''s1'', s_organizationId = ''org1'', s_razorpaySubscriptionId = ''sub_1'',
          s_amount = 99900, s_status = ''ACTIVE'', s_endDate = None\<rparr>]\<rparr>"

section \<open>Sample requests\<close>

text \<open>Requests on the sample store that the examples use.\<close>

definition booking :: "instant \<Rightarrow> appointmentBody" where
  "booking t = \<lparr>ab_patientId = ''p1'', ab_doctorId = ''doc1'', ab_clinicId = ''c1'',
                ab_appointmentDate = t, ab_duration = Some 30, ab_notes = None\<rparr>"

definition moveTo :: "instant \<Rightarrow> appointmentUpdate" where
  "moveTo t = \<lparr>au_patientId = None, au_doctorId = None, au_clinicId = None,
               au_appointmentDate = Some t, au_duration = None, au_notes = None,
               au_status = None\<rparr>"

definition setStatus :: "string \<Rightarrow> appointmentUpdate" where
  "setStatus st = \<lparr>au_patientId = None, au_doctorId = None, au_clinicId = None,
                   au_appointmentDate = None, au_duration = None, au_notes = None,
                   au_status = Some st\<rparr>"

definition newPatient :: "string \<Rightarrow> patientCreate" where
  "newPatient ph = \<lparr>pc_name = ''Rita'', pc_phone = ph, pc_email = None, pc_clinicId = ''c1''\<rparr>"

definition setPhone :: "string \<Rightarrow> patientBody" where
  "setPhone ph = \<lparr>pb_name = None, pb_phone = Some ph, pb_email = None, pb_clinicId = None\<rparr>"

definition joined :: db where
  "joined = snd (joinOrganization sample ''guest'' ''tok1'' 1000000)"

definition webhookEvent :: "string \<Rightarrow> string \<Rightarrow> webhookBody" where
  "webhookEvent ev sid = \<lparr>wb_event = ev, wb_subscriptionId = Some sid\<rparr>"

text \<open>Two restore payloads: one with the two patients of \<open>org1\<close> and no appointment, and
  the same without its \<^verbatim>\<open>patients\<close> key.\<close>

definition fullPayload :: backupData where
  "fullPayload = \<lparr>bd_organization = Some (organizations sample ! 0),
                   bd_patients = Some (take 2 (patients sample)),
                   bd_appointments = Some [], bd_ehrRecords = None\<rparr>"

definition payloadWithoutPatients :: backupData where
  "payloadWithoutPatients = fullPayload\<lparr>bd_patients := None\<rparr>"

definition noFilter :: appointmentQuery where
  "noFilter = \<lparr>q_date = None, q_doctor = None, q_clinic = None, q_status = None\<rparr>"

definition byDoctor :: "ident \<Rightarrow> appointmentQuery" where
  "byDoctor x = \<lparr>q_date = None, q_doctor = Some x, q_clinic = None, q_status = None\<rparr>"

lemmas sample_defs = sample_def sampleUsers_def sampleAppointments_def

lemmas query_defs = findFirst_def updateMany_def count_def findUser_def organizationOf_def
  clinicInOrg_def patientInOrg_def

lemmas eval_defs = sample_defs query_defs appointmentScope_def

section \<open>Facts about the store queries\<close>

lemma findFirst_Some_holds: "findFirst P xs = Some b \<Longrightarrow> P b \<and> b \<in> set xs"
  unfolding findFirst_def by (auto simp: find_Some_iff)

lemma findFirst_None_iff: "findFirst P xs = None \<longleftrightarrow> (\<forall>x\<in>set xs. \<not> P x)"
  unfolding findFirst_def by (auto simp: find_None_iff)

lemma findFirst_exists: "x \<in> set xs \<Longrightarrow> P x \<Longrightarrow> \<exists>b. findFirst P xs = Some b"
  using findFirst_None_iff [of P xs] by (cases "findFirst P xs") auto

lemma findFirst_distinct_key:
  assumes "distinct (map f xs)" and "a \<in> set xs" and "findFirst P xs = Some b" and "f b = f a"
  shows "b = a"
proof -
  from assms(3) have "b \<in> set xs" by (simp add: findFirst_Some_holds)
  with assms(1,2,4) show ?thesis by (meson distinct_map inj_onD)
qed

lemma updateMany_cases:
  "y \<in> set (updateMany P f xs) \<Longrightarrow> (\<exists>x\<in>set xs. P x \<and> y = f x) \<or> (y \<in> set xs \<and> \<not> P y)"
  unfolding updateMany_def by auto

lemma updateMany_hit: "x \<in> set xs \<Longrightarrow> P x \<Longrightarrow> f x \<in> set (updateMany P f xs)"
  unfolding updateMany_def by force

lemma updateMany_others:
  assumes "\<And>x. P (f x) = P x"
  shows "{y \<in> set (updateMany P f xs). \<not> P y} = {x \<in> set xs. \<not> P x}"
  unfolding updateMany_def using assms by auto

section \<open>Cancelling an appointment\<close>

lemma deleteAppointment_error_keeps:
  "isError (fst (deleteAppointment d userId i now)) \<Longrightarrow> snd (deleteAppointment d userId i now) = d"
  unfolding deleteAppointment_def by (auto split: option.splits if_splits)

lemma deleteAppointment_rejects:
  assumes "distinct (map a_id (appointments d))" and "a \<in> set (appointments d)" and "a_id a = i"
    and bad: "a_appointmentDate a \<le> now \<or> a_status a = ''COMPLETED'' \<or> a_status a = ''CANCELLED''"
  shows "isError (fst (deleteAppointment d userId i now))"
proof (cases "findUser d userId")
  case None
  then show ?thesis by (simp add: deleteAppointment_def)
next
  case (Some usr)
  show ?thesis
  proof (cases "organizationOf d usr")
    case None
    with Some show ?thesis by (simp add: deleteAppointment_def)
  next
    case org: (Some org)
    show ?thesis
    proof (cases "findFirst (appointmentScope d usr org userId i) (appointments d)")
      case None
      with Some org show ?thesis by (simp add: deleteAppointment_def)
    next
      case found: (Some b)
      then have "a_id b = i"
        using findFirst_Some_holds [OF found] by (simp add: appointmentScope_def)
      with assms found have "b = a"
        by (metis findFirst_distinct_key)
      with bad Some org found show ?thesis
        by (auto simp: deleteAppointment_def)
    qed
  qed
qed

lemma deleteAppointment_cancels:
  assumes "findUser d userId = Some usr" and "organizationOf d usr = Some org"
    and "findFirst (appointmentScope d usr org userId i) (appointments d) = Some a"
    and "now < a_appointmentDate a" and "a_status a \<noteq> ''COMPLETED''" and "a_status a \<noteq> ''CANCELLED''"
  shows "deleteAppointment d userId i now =
           (Json 200 ''Appointment cancelled successfully'',
            d\<lparr>appointments := updateMany (\<lambda>x. a_id x = i) (\<lambda>x. x\<lparr>a_status := ''CANCELLED''\<rparr>) (appointments d)\<rparr>)"
  using assms by (simp add: deleteAppointment_def)

text \<open>
  \<^bold>\<open>C8.\<close> Cancelling is rejected whenever the appointment's start is not strictly after
  the current instant or its status is COMPLETED or CANCELLED; a rejected call leaves
  the store, and so the status, as it was; otherwise (the appointment being in the
  caller's scope) the reply is the success message and the status of the appointment,
  and of no other, becomes CANCELLED.
\<close>

theorem cancel_appointment_guard:
  "(distinct (map a_id (appointments d)) \<and> a \<in> set (appointments d) \<and> a_id a = i \<and>
      (a_appointmentDate a \<le> now \<or> a_status a = ''COMPLETED'' \<or> a_status a = ''CANCELLED'')
      \<longrightarrow> isError (fst (deleteAppointment d userId i now))) \<and>
   (isError (fst (deleteAppointment d userId i now))
      \<longrightarrow> snd (deleteAppointment d userId i now) = d) \<and>
   (findUser d userId = Some usr \<and> organizationOf d usr = Some org \<and>
    findFirst (appointmentScope d usr org userId i) (appointments d) = Some b \<and>
    now < a_appointmentDate b \<and> a_status b \<noteq> ''COMPLETED'' \<and> a_status b \<noteq> ''CANCELLED''
      \<longrightarrow> fst (deleteAppointment d userId i now) = Json 200 ''Appointment cancelled successfully'' \<and>
          b\<lparr>a_status := ''CANCELLED''\<rparr> \<in> set (appointments (snd (deleteAppointment d userId i now))) \<and>
          (\<forall>x\<in>set (appointments (snd (deleteAppointment d userId i now))).
              a_id x = i \<longrightarrow> a_status x = ''CANCELLED'') \<and>
          {x \<in> set (appointments (snd (deleteAppointment d userId i now))). a_id x \<noteq> i} =
          {x \<in> set (appointments d). a_id x \<noteq> i})"
proof (intro conjI impI)
  assume "distinct (map a_id (appointments d)) \<and> a \<in> set (appointments d) \<and> a_id a = i \<and>
      (a_appointmentDate a \<le> now \<or> a_status a = ''COMPLETED'' \<or> a_status a = ''CANCELLED'')"
  then show "isError (fst (deleteAppointment d userId i now))"
    using deleteAppointment_rejects by blast
next
  assume "isError (fst (deleteAppointment d userId i now))"
  then show "snd (deleteAppointment d userId i now) = d"
    by (rule deleteAppointment_error_keeps)
next
  assume h: "findUser d userId = Some usr \<and> organizationOf d usr = Some org \<and>
    findFirst (appointmentScope d usr org userId i) (appointments d) = Some b \<and>
    now < a_appointmentDate b \<and> a_status b \<noteq> ''COMPLETED'' \<and> a_status b \<noteq> ''CANCELLED''"
  then have r: "deleteAppointment d userId i now =
           (Json 200 ''Appointment cancelled successfully'',
            d\<lparr>appointments := updateMany (\<lambda>x. a_id x = i) (\<lambda>x. x\<lparr>a_status := ''CANCELLED''\<rparr>) (appointments d)\<rparr>)"
    using deleteAppointment_cancels by blast
  from h have b: "b \<in> set (appointments d)" "a_id b = i"
    using findFirst_Some_holds [of "appointmentScope d usr org userId i" "appointments d" b]
    by (simp_all add: appointmentScope_def)
  show "fst (deleteAppointment d userId i now) = Json 200 ''Appointment cancelled successfully''"
    by (simp add: r)
  have apps: "appointments (snd (deleteAppointment d userId i now)) =
      updateMany (\<lambda>x. a_id x = i) (\<lambda>x. x\<lparr>a_status := ''CANCELLED''\<rparr>) (appointments d)"
    by (simp add: r)
  show "b\<lparr>a_status := ''CANCELLED''\<rparr> \<in> set (appointments (snd (deleteAppointment d userId i now)))"
    unfolding apps using b by (simp add: updateMany_hit)
  show "\<forall>x\<in>set (appointments (snd (deleteAppointment d userId i now))).
              a_id x = i \<longrightarrow> a_status x = ''CANCELLED''"
  proof (intro ballI impI)
    fix x
    assume "x \<in> set (appointments (snd (deleteAppointment d userId i now)))" and "a_id x = i"
    with updateMany_cases [of x "\<lambda>x. a_id x = i" _ "appointments d"]
    obtain x0 where "x = x0\<lparr>a_status := ''CANCELLED''\<rparr>"
      unfolding apps by blast
    then show "a_status x = ''CANCELLED''" by simp
  qed
  show "{x \<in> set (appointments (snd (deleteAppointment d userId i now))). a_id x \<noteq> i} =
          {x \<in> set (appointments d). a_id x \<noteq> i}"
    unfolding apps by (rule updateMany_others) simp
qed

theorem cancel_appointment_guard_witness:
  "isError (fst (deleteAppointment sample ''doc1'' ''ap3'' 1000000)) \<and>
   isError (fst (deleteAppointment sample ''doc1'' ''ap4'' 1000000)) \<and>
   snd (deleteAppointment sample ''doc1'' ''ap4'' 1000000) = sample \<and>
   fst (deleteAppointment sample ''doc1'' ''ap1'' 1000000) = Json 200 ''Appointment cancelled successfully'' \<and>
   (sampleAppointments ! 0)\<lparr>a_status := ''CANCELLED''\<rparr>
      \<in> set (appointments (snd (deleteAppointment sample ''doc1'' ''ap1'' 1000000)))"
proof -
  have past: "distinct (map a_id (appointments sample)) \<and>
      sampleAppointments ! 2 \<in> set (appointments sample) \<and> a_id (sampleAppointments ! 2) = ''ap3'' \<and>
      (a_appointmentDate (sampleAppointments ! 2) \<le> 1000000 \<or>
       a_status (sampleAppointments ! 2) = ''COMPLETED'' \<or>
       a_status (sampleAppointments ! 2) = ''CANCELLED'')"
    by (simp add: sample_defs)
  have final: "distinct (map a_id (appointments sample)) \<and>
      sampleAppointments ! 3 \<in> set (appointments sample) \<and> a_id (sampleAppointments ! 3) = ''ap4'' \<and>
      (a_appointmentDate (sampleAppointments ! 3) \<le> 1000000 \<or>
       a_status (sampleAppointments ! 3) = ''COMPLETED'' \<or>
       a_status (sampleAppointments ! 3) = ''CANCELLED'')"
    by (simp add: sample_defs)
  have live: "findUser sample ''doc1'' = Some (sampleUsers ! 1) \<and>
      organizationOf sample (sampleUsers ! 1) = Some (organizations sample ! 0) \<and>
      findFirst (appointmentScope sample (sampleUsers ! 1) (organizations sample ! 0) ''doc1'' ''ap1'')
        (appointments sample) = Some (sampleAppointments ! 0) \<and>
      1000000 < a_appointmentDate (sampleAppointments ! 0) \<and>
      a_status (sampleAppointments ! 0) \<noteq> ''COMPLETED'' \<and>
      a_status (sampleAppointments ! 0) \<noteq> ''CANCELLED''"
    by (simp add: eval_defs)
  note g3 = cancel_appointment_guard [of sample "sampleAppointments ! 2" "''ap3''" 1000000 "''doc1''"]
  note g4 = cancel_appointment_guard [of sample "sampleAppointments ! 3" "''ap4''" 1000000 "''doc1''"]
  note g1 = cancel_appointment_guard [of sample _ "''ap1''" 1000000 "''doc1''" "sampleUsers ! 1"
       "organizations sample ! 0" "sampleAppointments ! 0"]
  have r3: "isError (fst (deleteAppointment sample ''doc1'' ''ap3'' 1000000))"
    using g3 [THEN conjunct1, THEN mp, OF past] .
  have r4: "isError (fst (deleteAppointment sample ''doc1'' ''ap4'' 1000000))"
    using g4 [THEN conjunct1, THEN mp, OF final] .
  have k4: "snd (deleteAppointment sample ''doc1'' ''ap4'' 1000000) = sample"
    using g4 [THEN conjunct2, THEN conjunct1, THEN mp, OF r4] .
  note r1 = g1 [THEN conjunct2, THEN conjunct2, THEN mp, OF live]
  from r3 r4 k4 r1 [THEN conjunct1] r1 [THEN conjunct2, THEN conjunct1]
  show ?thesis by (intro conjI)
qed

section \<open>Scheduling conflicts and status changes\<close>

lemma createAppointment_error_keeps:
  "isError (fst (createAppointment d userId b now newId)) \<Longrightarrow>
   snd (createAppointment d userId b now newId) = d"
  unfolding createAppointment_def Let_def
  by (simp split: option.splits if_splits)

lemma createAppointment_conflict_rejects:
  assumes "findFirst (conflicting (ab_doctorId b) None (ab_appointmentDate b)
             (numOr (ab_duration b) 30)) (appointments d) \<noteq> None"
  shows "isError (fst (createAppointment d userId b now newId))"
  using assms unfolding createAppointment_def Let_def
  by (simp split: option.splits)

lemma createAppointment_conflict_error:
  assumes "findFirst (conflicting (ab_doctorId b) None (ab_appointmentDate b)
             (numOr (ab_duration b) 30)) (appointments d) \<noteq> None"
    and "findUser d userId = Some usr" and "organizationOf d usr = Some org"
    and "findFirst (\<lambda>p. p_id p = ab_patientId b \<and> clinicInOrg d (o_id org) (p_clinicId p))
               (patients d) \<noteq> None"
    and "findFirst (\<lambda>u. u_id u = ab_doctorId b \<and> u_organizationId u = Some (o_id org) \<and>
                                 u_role u = ''DOCTOR'') (users d) \<noteq> None"
    and "findFirst (\<lambda>c. c_id c = ab_clinicId b \<and> c_organizationId c = o_id org)
                    (clinics d) \<noteq> None"
    and "now < ab_appointmentDate b"
  shows "fst (createAppointment d userId b now newId) =
           Error 400 ''Doctor has a conflicting appointment at this time''"
  using assms unfolding createAppointment_def Let_def
  by simp

lemma conflicting_create_iff: "conflicting doctorId None t dur x = specConflict doctorId t dur x"
  unfolding conflicting_def specConflict_def by auto

lemma conflicting_update_iff:
  "conflicting doctorId (Some i) t dur x = (specConflict doctorId t dur x \<and> a_id x \<noteq> i)"
  unfolding conflicting_def specConflict_def by auto

lemma updateAppointment_cases:
  "(\<exists>c m. updateAppointment d userId i b now = (Error c m, d)) \<or>
   (\<exists>a. updateAppointment d userId i b now = storeAppointmentUpdate d i b a)"
  unfolding updateAppointment_def
  by (auto split: option.splits)

lemma updateAppointment_error_keeps:
  assumes "isError (fst (updateAppointment d userId i b now))"
  shows "snd (updateAppointment d userId i b now) = d"
  using updateAppointment_cases [of d userId i b now] assms
  by (auto simp: storeAppointmentUpdate_def)

lemma updateAppointment_conflict_rejects:
  assumes "findUser d userId = Some usr" and "organizationOf d usr = Some org"
    and "findFirst (appointmentScope d usr org userId i) (appointments d) = Some a"
    and "au_appointmentDate b = Some t"
    and "findFirst (conflicting (strOr (au_doctorId b) (a_doctorId a)) (Some i) t
                      (numOr (au_duration b) (a_duration a))) (appointments d) \<noteq> None"
  shows "isError (fst (updateAppointment d userId i b now))"
  using assms unfolding updateAppointment_def
  by (simp split: option.splits)

lemma updateAppointment_conflict_error:
  assumes "findUser d userId = Some usr" and "organizationOf d usr = Some org"
    and "findFirst (appointmentScope d usr org userId i) (appointments d) = Some a"
    and "au_appointmentDate b = Some t"
    and "findFirst (conflicting (strOr (au_doctorId b) (a_doctorId a)) (Some i) t
                      (numOr (au_duration b) (a_duration a))) (appointments d) \<noteq> None"
    and "\<not> (case au_status b of None \<Rightarrow> False | Some st \<Rightarrow> st \<noteq> [] \<and> st \<notin> set validStatuses)"
    and "now < t"
  shows "fst (updateAppointment d userId i b now) =
           Error 400 ''Doctor has a conflicting appointment at this time''"
  using assms unfolding updateAppointment_def
  by (simp split: option.splits)

lemma updateAppointment_accepts:
  assumes "findUser d userId = Some usr" and "organizationOf d usr = Some org"
    and "findFirst (appointmentScope d usr org userId i) (appointments d) = Some a"
    and "\<not> (case au_status b of None \<Rightarrow> False | Some st \<Rightarrow> st \<noteq> [] \<and> st \<notin> set validStatuses)"
    and "case au_appointmentDate b of None \<Rightarrow> True
         | Some t \<Rightarrow> now < t \<and>
             findFirst (conflicting (strOr (au_doctorId b) (a_doctorId a)) (Some i) t
                          (numOr (au_duration b) (a_duration a))) (appointments d) = None"
  shows "updateAppointment d userId i b now = storeAppointmentUpdate d i b a"
  using assms unfolding updateAppointment_def
  by (simp split: option.splits)

lemma updateAppointment_invalid_status:
  assumes "findUser d userId = Some usr" and "organizationOf d usr = Some org"
    and "findFirst (appointmentScope d usr org userId i) (appointments d) = Some a"
    and "au_status b = Some st" and "st \<noteq> []" and "st \<notin> set validStatuses"
  shows "updateAppointment d userId i b now = (Error 400 ''Invalid appointment status'', d)"
  using assms unfolding updateAppointment_def
  by simp

text \<open>
  \<^bold>\<open>C3.\<close> Whenever the symmetric window around the requested start contains the start
  of a SCHEDULED or CONFIRMED appointment of the same doctor, \<^verbatim>\<open>createAppointment\<close>
  creates nothing and replies with an error, which is the conflict error once the
  earlier checks of the handler (caller, patient, doctor, clinic, future date) have
  passed. The same holds for \<^verbatim>\<open>updateAppointment\<close> when the request carries a start
  time and the other appointment is not the updated row itself; the duration and the
  doctor are those of the request, else those stored. An appointment whose only
  conflict is its own row is updated.
\<close>

theorem scheduling_conflict_rejected:
  "(x \<in> set (appointments d) \<and>
    specConflict (ab_doctorId b) (ab_appointmentDate b) (numOr (ab_duration b) 30) x
    \<longrightarrow> isError (fst (createAppointment d userId b now newId)) \<and>
        snd (createAppointment d userId b now newId) = d \<and>
        (findUser d userId = Some usr \<and> organizationOf d usr = Some org \<and>
         (\<exists>p\<in>set (patients d). p_id p = ab_patientId b \<and> clinicInOrg d (o_id org) (p_clinicId p)) \<and>
         (\<exists>v\<in>set (users d). u_id v = ab_doctorId b \<and> u_organizationId v = Some (o_id org) \<and>
                               u_role v = ''DOCTOR'') \<and>
         (\<exists>c\<in>set (clinics d). c_id c = ab_clinicId b \<and> c_organizationId c = o_id org) \<and>
         now < ab_appointmentDate b
         \<longrightarrow> fst (createAppointment d userId b now newId) =
               Error 400 ''Doctor has a conflicting appointment at this time'')) \<and>
   (findUser d userId = Some usr \<and> organizationOf d usr = Some org \<and>
    findFirst (appointmentScope d usr org userId i) (appointments d) = Some a \<and>
    au_appointmentDate u = Some t \<and>
    x \<in> set (appointments d) \<and> a_id x \<noteq> i \<and>
    specConflict (strOr (au_doctorId u) (a_doctorId a)) t (numOr (au_duration u) (a_duration a)) x
    \<longrightarrow> isError (fst (updateAppointment d userId i u now)) \<and>
        snd (updateAppointment d userId i u now) = d \<and>
        ((\<forall>st. au_status u = Some st \<longrightarrow> st = [] \<or> st \<in> set validStatuses) \<and> now < t
         \<longrightarrow> fst (updateAppointment d userId i u now) =
               Error 400 ''Doctor has a conflicting appointment at this time'')) \<and>
   (findUser d userId = Some usr \<and> organizationOf d usr = Some org \<and>
    findFirst (appointmentScope d usr org userId i) (appointments d) = Some a \<and>
    au_appointmentDate u = Some t \<and> now < t \<and>
    (\<forall>st. au_status u = Some st \<longrightarrow> st = [] \<or> st \<in> set validStatuses) \<and>
    (\<forall>y\<in>set (appointments d).
        specConflict (strOr (au_doctorId u) (a_doctorId a)) t (numOr (au_duration u) (a_duration a)) y
        \<longrightarrow> a_id y = i)
    \<longrightarrow> updateAppointment d userId i u now = storeAppointmentUpdate d i u a)"
proof (intro conjI impI)
  assume h: "x \<in> set (appointments d) \<and>
    specConflict (ab_doctorId b) (ab_appointmentDate b) (numOr (ab_duration b) 30) x"
  then have found: "findFirst (conflicting (ab_doctorId b) None (ab_appointmentDate b)
             (numOr (ab_duration b) 30)) (appointments d) \<noteq> None"
    by (auto simp: findFirst_None_iff conflicting_create_iff)
  then show e: "isError (fst (createAppointment d userId b now newId))"
    by (rule createAppointment_conflict_rejects)
  then show "snd (createAppointment d userId b now newId) = d"
    by (rule createAppointment_error_keeps)
  assume v: "findUser d userId = Some usr \<and> organizationOf d usr = Some org \<and>
         (\<exists>p\<in>set (patients d). p_id p = ab_patientId b \<and> clinicInOrg d (o_id org) (p_clinicId p)) \<and>
         (\<exists>v\<in>set (users d). u_id v = ab_doctorId b \<and> u_organizationId v = Some (o_id org) \<and>
                               u_role v = ''DOCTOR'') \<and>
         (\<exists>c\<in>set (clinics d). c_id c = ab_clinicId b \<and> c_organizationId c = o_id org) \<and>
         now < ab_appointmentDate b"
  then have p: "findFirst (\<lambda>p. p_id p = ab_patientId b \<and> clinicInOrg d (o_id org) (p_clinicId p))
               (patients d) \<noteq> None"
    and q: "findFirst (\<lambda>u. u_id u = ab_doctorId b \<and> u_organizationId u = Some (o_id org) \<and>
                                 u_role u = ''DOCTOR'') (users d) \<noteq> None"
    and c: "findFirst (\<lambda>c. c_id c = ab_clinicId b \<and> c_organizationId c = o_id org)
                    (clinics d) \<noteq> None"
    unfolding findFirst_None_iff by blast+
  from v show "fst (createAppointment d userId b now newId) =
               Error 400 ''Doctor has a conflicting appointment at this time''"
    using createAppointment_conflict_error [OF found _ _ p q c] by blast
next
  assume h: "findUser d userId = Some usr \<and> organizationOf d usr = Some org \<and>
    findFirst (appointmentScope d usr org userId i) (appointments d) = Some a \<and>
    au_appointmentDate u = Some t \<and>
    x \<in> set (appointments d) \<and> a_id x \<noteq> i \<and>
    specConflict (strOr (au_doctorId u) (a_doctorId a)) t (numOr (au_duration u) (a_duration a)) x"
  then have found: "findFirst (conflicting (strOr (au_doctorId u) (a_doctorId a)) (Some i) t
                      (numOr (au_duration u) (a_duration a))) (appointments d) \<noteq> None"
    by (auto simp: findFirst_None_iff conflicting_update_iff)
  from h show e: "isError (fst (updateAppointment d userId i u now))"
    using updateAppointment_conflict_rejects [OF _ _ _ _ found] by blast
  then show "snd (updateAppointment d userId i u now) = d"
    by (rule updateAppointment_error_keeps)
  assume s: "(\<forall>st. au_status u = Some st \<longrightarrow> st = [] \<or> st \<in> set validStatuses) \<and> now < t"
  then have ok: "\<not> (case au_status u of None \<Rightarrow> False | Some st \<Rightarrow> st \<noteq> [] \<and> st \<notin> set validStatuses)"
    by (cases "au_status u") auto
  from h s show "fst (updateAppointment d userId i u now) =
               Error 400 ''Doctor has a conflicting appointment at this time''"
    using updateAppointment_conflict_error [OF _ _ _ _ found ok] by blast
next
  assume h: "findUser d userId = Some usr \<and> organizationOf d usr = Some org \<and>
    findFirst (appointmentScope d usr org userId i) (appointments d) = Some a \<and>
    au_appointmentDate u = Some t \<and> now < t \<and>
    (\<forall>st. au_status u = Some st \<longrightarrow> st = [] \<or> st \<in> set validStatuses) \<and>
    (\<forall>y\<in>set (appointments d).
        specConflict (strOr (au_doctorId u) (a_doctorId a)) t (numOr (au_duration u) (a_duration a)) y
        \<longrightarrow> a_id y = i)"
  then have ok: "\<not> (case au_status u of None \<Rightarrow> False | Some st \<Rightarrow> st \<noteq> [] \<and> st \<notin> set validStatuses)"
    by (cases "au_status u") auto
  from h have free: "findFirst (conflicting (strOr (au_doctorId u) (a_doctorId a)) (Some i) t
                      (numOr (au_duration u) (a_duration a))) (appointments d) = None"
    unfolding findFirst_None_iff conflicting_update_iff by blast
  from h free have dt: "case au_appointmentDate u of None \<Rightarrow> True
         | Some t \<Rightarrow> now < t \<and>
             findFirst (conflicting (strOr (au_doctorId u) (a_doctorId a)) (Some i) t
                          (numOr (au_duration u) (a_duration a))) (appointments d) = None"
    by simp
  from h show "updateAppointment d userId i u now = storeAppointmentUpdate d i u a"
    using updateAppointment_accepts [OF _ _ _ ok dt] by blast
qed

theorem scheduling_conflict_rejected_witness:
  "fst (createAppointment sample ''staff1'' (booking 90900000) 1000000 ''ap9'') =
      Error 400 ''Doctor has a conflicting appointment at this time'' \<and>
   snd (createAppointment sample ''staff1'' (booking 90900000) 1000000 ''ap9'') = sample \<and>
   fst (updateAppointment sample ''staff1'' ''ap4'' (moveTo 90600000) 1000000) =
      Error 400 ''Doctor has a conflicting appointment at this time'' \<and>
   updateAppointment sample ''doc1'' ''ap1'' (moveTo 90300000) 1000000 =
      storeAppointmentUpdate sample ''ap1'' (moveTo 90300000) (sampleAppointments ! 0)"
proof -
  let ?org = "organizations sample ! 0"
  have hit: "sampleAppointments ! 0 \<in> set (appointments sample) \<and>
      specConflict (ab_doctorId (booking 90900000)) (ab_appointmentDate (booking 90900000))
        (numOr (ab_duration (booking 90900000)) 30) (sampleAppointments ! 0)"
    by (simp add: sample_defs booking_def specConflict_def)
  have valid: "findUser sample ''staff1'' = Some (sampleUsers ! 3) \<and>
      organizationOf sample (sampleUsers ! 3) = Some ?org \<and>
      (\<exists>p\<in>set (patients sample). p_id p = ab_patientId (booking 90900000) \<and>
          clinicInOrg sample (o_id ?org) (p_clinicId p)) \<and>
      (\<exists>v\<in>set (users sample). u_id v = ab_doctorId (booking 90900000) \<and>
          u_organizationId v = Some (o_id ?org) \<and> u_role v = ''DOCTOR'') \<and>
      (\<exists>c\<in>set (clinics sample). c_id c = ab_clinicId (booking 90900000) \<and>
          c_organizationId c = o_id ?org) \<and>
      1000000 < ab_appointmentDate (booking 90900000)"
    by (simp add: eval_defs booking_def)
  note c = scheduling_conflict_rejected [of "sampleAppointments ! 0" sample "booking 90900000"
      "''staff1''" 1000000 "''ap9''" "sampleUsers ! 3" ?org, THEN conjunct1, THEN mp, OF hit]
  have c1: "fst (createAppointment sample ''staff1'' (booking 90900000) 1000000 ''ap9'') =
      Error 400 ''Doctor has a conflicting appointment at this time''"
    using c [THEN conjunct2, THEN conjunct2, THEN mp, OF valid] .
  have c2: "snd (createAppointment sample ''staff1'' (booking 90900000) 1000000 ''ap9'') = sample"
    using c [THEN conjunct2, THEN conjunct1] .
  have upd: "findUser sample ''staff1'' = Some (sampleUsers ! 3) \<and>
      organizationOf sample (sampleUsers ! 3) = Some ?org \<and>
      findFirst (appointmentScope sample (sampleUsers ! 3) ?org ''staff1'' ''ap4'')
        (appointments sample) = Some (sampleAppointments ! 3) \<and>
      au_appointmentDate (moveTo 90600000) = Some 90600000 \<and>
      sampleAppointments ! 0 \<in> set (appointments sample) \<and>
      a_id (sampleAppointments ! 0) \<noteq> ''ap4'' \<and>
      specConflict (strOr (au_doctorId (moveTo 90600000)) (a_doctorId (sampleAppointments ! 3)))
        90600000 (numOr (au_duration (moveTo 90600000)) (a_duration (sampleAppointments ! 3)))
        (sampleAppointments ! 0)"
    by (simp add: eval_defs moveTo_def specConflict_def)
  have st: "(\<forall>st. au_status (moveTo 90600000) = Some st \<longrightarrow> st = [] \<or> st \<in> set validStatuses) \<and>
      (1000000::int) < 90600000"
    by (simp add: moveTo_def)
  note u = scheduling_conflict_rejected [of "sampleAppointments ! 0" sample _ "''staff1''" 1000000 _
      "sampleUsers ! 3" ?org "''ap4''" "sampleAppointments ! 3" "moveTo 90600000" 90600000,
      THEN conjunct2, THEN conjunct1, THEN mp, OF upd]
  have u1: "fst (updateAppointment sample ''staff1'' ''ap4'' (moveTo 90600000) 1000000) =
      Error 400 ''Doctor has a conflicting appointment at this time''"
    using u [THEN conjunct2, THEN conjunct2, THEN mp, OF st] .
  have own: "findUser sample ''doc1'' = Some (sampleUsers ! 1) \<and>
      organizationOf sample (sampleUsers ! 1) = Some ?org \<and>
      findFirst (appointmentScope sample (sampleUsers ! 1) ?org ''doc1'' ''ap1'')
        (appointments sample) = Some (sampleAppointments ! 0) \<and>
      au_appointmentDate (moveTo 90300000) = Some 90300000 \<and> (1000000::int) < 90300000 \<and>
      (\<forall>st. au_status (moveTo 90300000) = Some st \<longrightarrow> st = [] \<or> st \<in> set validStatuses) \<and>
      (\<forall>y\<in>set (appointments sample).
          specConflict (strOr (au_doctorId (moveTo 90300000)) (a_doctorId (sampleAppointments ! 0)))
            90300000 (numOr (au_duration (moveTo 90300000)) (a_duration (sampleAppointments ! 0))) y
          \<longrightarrow> a_id y = ''ap1'')"
    by (simp add: eval_defs moveTo_def specConflict_def)
  have o1: "updateAppointment sample ''doc1'' ''ap1'' (moveTo 90300000) 1000000 =
      storeAppointmentUpdate sample ''ap1'' (moveTo 90300000) (sampleAppointments ! 0)"
    using scheduling_conflict_rejected [of _ sample _ "''doc1''" 1000000 _
      "sampleUsers ! 1" ?org "''ap1''" "sampleAppointments ! 0" "moveTo 90300000" 90300000,
      THEN conjunct2, THEN conjunct2, THEN mp, OF own] .
  from c1 c2 u1 o1 show ?thesis by (intro conjI)
qed

lemma applyAppointmentUpdate_status:
  "au_status b = Some st \<Longrightarrow> a_status (applyAppointmentUpdate b a) = st"
  unfolding applyAppointmentUpdate_def by simp

lemma applyAppointmentUpdate_id: "a_id (applyAppointmentUpdate b a) = a_id a"
  unfolding applyAppointmentUpdate_def by simp

text \<open>
  \<^bold>\<open>C9.\<close> For an appointment in the caller's scope and a target status among the six
  values, \<^verbatim>\<open>updateAppointment\<close> stores the status whatever the current one is: no
  hypothesis mentions the stored status. The request is accepted when it carries no
  start time, or a future one without a conflict; SCHEDULED can go straight to
  COMPLETED, and CANCELLED or COMPLETED back to SCHEDULED. A non-empty status outside
  the six values is the only one refused for its value.
\<close>

theorem update_status_any_transition:
  "(findUser d userId = Some usr \<and> organizationOf d usr = Some org \<and>
    findFirst (appointmentScope d usr org userId i) (appointments d) = Some a \<and>
    au_status b = Some st \<and> st \<in> set validStatuses \<and>
    (case au_appointmentDate b of None \<Rightarrow> True
     | Some t \<Rightarrow> now < t \<and>
         (\<forall>y\<in>set (appointments d).
            specConflict (strOr (au_doctorId b) (a_doctorId a)) t
              (numOr (au_duration b) (a_duration a)) y \<longrightarrow> a_id y = i))
    \<longrightarrow> fst (updateAppointment d userId i b now) = Json 200 (applyAppointmentUpdate b a) \<and>
        a_status (applyAppointmentUpdate b a) = st \<and>
        appointments (snd (updateAppointment d userId i b now)) =
          updateMany (\<lambda>x. a_id x = i) (applyAppointmentUpdate b) (appointments d) \<and>
        (\<forall>x\<in>set (appointments (snd (updateAppointment d userId i b now))).
            a_id x = i \<longrightarrow> a_status x = st)) \<and>
   (findUser d userId = Some usr \<and> organizationOf d usr = Some org \<and>
    findFirst (appointmentScope d usr org userId i) (appointments d) = Some a \<and>
    au_status b = Some st \<and> st \<noteq> [] \<and> st \<notin> set validStatuses
    \<longrightarrow> updateAppointment d userId i b now = (Error 400 ''Invalid appointment status'', d))"
proof (intro conjI impI)
  assume h: "findUser d userId = Some usr \<and> organizationOf d usr = Some org \<and>
    findFirst (appointmentScope d usr org userId i) (appointments d) = Some a \<and>
    au_status b = Some st \<and> st \<in> set validStatuses \<and>
    (case au_appointmentDate b of None \<Rightarrow> True
     | Some t \<Rightarrow> now < t \<and>
         (\<forall>y\<in>set (appointments d).
            specConflict (strOr (au_doctorId b) (a_doctorId a)) t
              (numOr (au_duration b) (a_duration a)) y \<longrightarrow> a_id y = i))"
  then have ok: "\<not> (case au_status b of None \<Rightarrow> False | Some st \<Rightarrow> st \<noteq> [] \<and> st \<notin> set validStatuses)"
    by simp
  from h have dt: "case au_appointmentDate b of None \<Rightarrow> True
         | Some t \<Rightarrow> now < t \<and>
             findFirst (conflicting (strOr (au_doctorId b) (a_doctorId a)) (Some i) t
                          (numOr (au_duration b) (a_duration a))) (appointments d) = None"
  proof (cases "au_appointmentDate b")
    case None
    then show ?thesis by simp
  next
    case (Some t)
    with h have "now < t" and "\<forall>y\<in>set (appointments d).
            specConflict (strOr (au_doctorId b) (a_doctorId a)) t
              (numOr (au_duration b) (a_duration a)) y \<longrightarrow> a_id y = i"
      by simp_all
    then have "now < t \<and>
             findFirst (conflicting (strOr (au_doctorId b) (a_doctorId a)) (Some i) t
                          (numOr (au_duration b) (a_duration a))) (appointments d) = None"
      unfolding findFirst_None_iff conflicting_update_iff by blast
    with Some show ?thesis by simp
  qed
  from h have r: "updateAppointment d userId i b now = storeAppointmentUpdate d i b a"
    using updateAppointment_accepts [OF _ _ _ ok dt] by blast
  show "fst (updateAppointment d userId i b now) = Json 200 (applyAppointmentUpdate b a)"
    by (simp add: r storeAppointmentUpdate_def)
  from h show s: "a_status (applyAppointmentUpdate b a) = st"
    by (simp add: applyAppointmentUpdate_status)
  show apps: "appointments (snd (updateAppointment d userId i b now)) =
          updateMany (\<lambda>x. a_id x = i) (applyAppointmentUpdate b) (appointments d)"
    by (simp add: r storeAppointmentUpdate_def)
  show "\<forall>x\<in>set (appointments (snd (updateAppointment d userId i b now))).
            a_id x = i \<longrightarrow> a_status x = st"
  proof (intro ballI impI)
    fix x
    assume "x \<in> set (appointments (snd (updateAppointment d userId i b now)))" and "a_id x = i"
    with updateMany_cases [of x "\<lambda>x. a_id x = i" "applyAppointmentUpdate b" "appointments d"]
    obtain x0 where "x = applyAppointmentUpdate b x0"
      unfolding apps by blast
    with h show "a_status x = st" by (simp add: applyAppointmentUpdate_status)
  qed
next
  assume "findUser d userId = Some usr \<and> organizationOf d usr = Some org \<and>
    findFirst (appointmentScope d usr org userId i) (appointments d) = Some a \<and>
    au_status b = Some st \<and> st \<noteq> [] \<and> st \<notin> set validStatuses"
  then show "updateAppointment d userId i b now = (Error 400 ''Invalid appointment status'', d)"
    using updateAppointment_invalid_status by blast
qed

theorem update_status_any_transition_witness:
  "fst (updateAppointment sample ''doc1'' ''ap1'' (setStatus ''COMPLETED'') 1000000) =
     Json 200 ((sampleAppointments ! 0)\<lparr>a_status := ''COMPLETED''\<rparr>) \<and>
   fst (updateAppointment sample ''admin1'' ''ap4'' (setStatus ''SCHEDULED'') 1000000) =
     Json 200 ((sampleAppointments ! 3)\<lparr>a_status := ''SCHEDULED''\<rparr>) \<and>
   updateAppointment sample ''admin1'' ''ap4'' (setStatus ''DONE'') 1000000 =
     (Error 400 ''Invalid appointment status'', sample)"
proof -
  let ?org = "organizations sample ! 0"
  have jump: "findUser sample ''doc1'' = Some (sampleUsers ! 1) \<and>
      organizationOf sample (sampleUsers ! 1) = Some ?org \<and>
      findFirst (appointmentScope sample (sampleUsers ! 1) ?org ''doc1'' ''ap1'')
        (appointments sample) = Some (sampleAppointments ! 0) \<and>
      au_status (setStatus ''COMPLETED'') = Some ''COMPLETED'' \<and>
      ''COMPLETED'' \<in> set validStatuses \<and>
      (case au_appointmentDate (setStatus ''COMPLETED'') of None \<Rightarrow> True
       | Some t \<Rightarrow> 1000000 < t \<and>
           (\<forall>y\<in>set (appointments sample).
              specConflict (strOr (au_doctorId (setStatus ''COMPLETED'')) (a_doctorId (sampleAppointments ! 0))) t
                (numOr (au_duration (setStatus ''COMPLETED'')) (a_duration (sampleAppointments ! 0))) y
              \<longrightarrow> a_id y = ''ap1''))"
    by (simp add: eval_defs setStatus_def validStatuses_def)
  have reopen: "findUser sample ''admin1'' = Some (sampleUsers ! 0) \<and>
      organizationOf sample (sampleUsers ! 0) = Some ?org \<and>
      findFirst (appointmentScope sample (sampleUsers ! 0) ?org ''admin1'' ''ap4'')
        (appointments sample) = Some (sampleAppointments ! 3) \<and>
      au_status (setStatus ''SCHEDULED'') = Some ''SCHEDULED'' \<and>
      ''SCHEDULED'' \<in> set validStatuses \<and>
      (case au_appointmentDate (setStatus ''SCHEDULED'') of None \<Rightarrow> True
       | Some t \<Rightarrow> 1000000 < t \<and>
           (\<forall>y\<in>set (appointments sample).
              specConflict (strOr (au_doctorId (setStatus ''SCHEDULED'')) (a_doctorId (sampleAppointments ! 3))) t
                (numOr (au_duration (setStatus ''SCHEDULED'')) (a_duration (sampleAppointments ! 3))) y
              \<longrightarrow> a_id y = ''ap4''))"
    by (simp add: eval_defs setStatus_def validStatuses_def)
  have bad: "findUser sample ''admin1'' = Some (sampleUsers ! 0) \<and>
      organizationOf sample (sampleUsers ! 0) = Some ?org \<and>
      findFirst (appointmentScope sample (sampleUsers ! 0) ?org ''admin1'' ''ap4'')
        (appointments sample) = Some (sampleAppointments ! 3) \<and>
      au_status (setStatus ''DONE'') = Some ''DONE'' \<and> ''DONE'' \<noteq> [] \<and>
      ''DONE'' \<notin> set validStatuses"
    by (simp add: eval_defs setStatus_def validStatuses_def)
  have e1: "applyAppointmentUpdate (setStatus ''COMPLETED'') (sampleAppointments ! 0) =
      (sampleAppointments ! 0)\<lparr>a_status := ''COMPLETED''\<rparr>"
    by (simp add: applyAppointmentUpdate_def setStatus_def sample_defs)
  have e2: "applyAppointmentUpdate (setStatus ''SCHEDULED'') (sampleAppointments ! 3) =
      (sampleAppointments ! 3)\<lparr>a_status := ''SCHEDULED''\<rparr>"
    by (simp add: applyAppointmentUpdate_def setStatus_def sample_defs)
  note t1 = update_status_any_transition [of sample "''doc1''" "sampleUsers ! 1" ?org "''ap1''"
      "sampleAppointments ! 0" "setStatus ''COMPLETED''" "''COMPLETED''" 1000000,
      THEN conjunct1, THEN mp, OF jump, THEN conjunct1]
  note t2 = update_status_any_transition [of sample "''admin1''" "sampleUsers ! 0" ?org "''ap4''"
      "sampleAppointments ! 3" "setStatus ''SCHEDULED''" "''SCHEDULED''" 1000000,
      THEN conjunct1, THEN mp, OF reopen, THEN conjunct1]
  note t3 = update_status_any_transition [of sample "''admin1''" "sampleUsers ! 0" ?org "''ap4''"
      "sampleAppointments ! 3" "setStatus ''DONE''" "''DONE''" 1000000,
      THEN conjunct2, THEN mp, OF bad]
  from t1 t2 t3 show ?thesis unfolding e1 e2 by (intro conjI)
qed

section \<open>Duplicate phone numbers\<close>

lemma createPatient_cases:
  "(\<exists>c m. createPatient d userId b newId = (Error c m, d)) \<or>
   (\<exists>e\<in>set (patients d). createPatient d userId b newId =
       (ErrorExisting 400 ''Patient with this phone number already exists''
          (p_id e) (p_name e) (p_phone e), d)) \<or>
   (\<exists>p. createPatient d userId b newId = (Json 201 p, d\<lparr>patients := patients d @ [p]\<rparr>))"
proof (cases "\<exists>c m. createPatient d userId b newId = (Error c m, d)")
  case True
  then show ?thesis by blast
next
  case False
  then obtain usr org where u: "findUser d userId = Some usr" "organizationOf d usr = Some org"
    and ph: "phoneRegex (pc_phone b)"
    unfolding createPatient_def by (auto split: option.splits if_splits)
  show ?thesis
  proof (cases "findFirst (samePhoneInOrg d (o_id org) (pc_phone b)) (patients d)")
    case None
    with u ph False show ?thesis
      unfolding createPatient_def Let_def by (simp split: if_splits)
  next
    case (Some e)
    then have "e \<in> set (patients d)" by (simp add: findFirst_Some_holds)
    with u ph Some show ?thesis
      unfolding createPatient_def by auto
  qed
qed

lemma createPatient_error_keeps:
  assumes "isError (fst (createPatient d userId b newId))"
  shows "snd (createPatient d userId b newId) = d"
  using createPatient_cases [of d userId b newId] assms by auto

lemma createPatient_duplicate:
  assumes "findUser d userId = Some usr" and "organizationOf d usr = Some org"
    and "findFirst (samePhoneInOrg d (o_id org) (pc_phone b)) (patients d) = Some e"
  shows "isError (fst (createPatient d userId b newId))"
    and "phoneRegex (pc_phone b) \<Longrightarrow> fst (createPatient d userId b newId) =
           ErrorExisting 400 ''Patient with this phone number already exists''
             (p_id e) (p_name e) (p_phone e)"
  using assms unfolding createPatient_def by simp_all

lemma updatePatient_cases:
  "(\<exists>c m. updatePatient d userId i b = (Error c m, d)) \<or>
   (\<exists>a. updatePatient d userId i b = storePatientUpdate d i b a)"
  unfolding updatePatient_def
  by (auto split: option.splits)

lemma updatePatient_error_keeps:
  assumes "isError (fst (updatePatient d userId i b))"
  shows "snd (updatePatient d userId i b) = d"
  using updatePatient_cases [of d userId i b] assms
  by (auto simp: storePatientUpdate_def)

lemma updatePatient_duplicate:
  assumes "findUser d userId = Some usr" and "organizationOf d usr = Some org"
    and "findFirst (patientScope d org i) (patients d) = Some P"
    and "pb_phone b = Some ph" and "ph \<noteq> []" and "ph \<noteq> p_phone P"
    and "findFirst (\<lambda>p. samePhoneInOrg d (o_id org) ph p \<and> p_id p \<noteq> i) (patients d) \<noteq> None"
  shows "isError (fst (updatePatient d userId i b))"
    and "phoneRegex ph \<Longrightarrow> fst (updatePatient d userId i b) =
           Error 400 ''Another patient with this phone number already exists''"
  using assms unfolding updatePatient_def by simp_all

lemma updatePatient_same_phone:
  assumes "findUser d userId = Some usr" and "organizationOf d usr = Some org"
    and "findFirst (patientScope d org i) (patients d) = Some P"
    and "pb_phone b = None \<or> pb_phone b = Some (p_phone P)"
  shows "updatePatient d userId i b = storePatientUpdate d i b P"
  using assms unfolding updatePatient_def by auto

text \<open>
  \<^bold>\<open>C4.\<close> When a patient of the caller's organization already holds the phone number,
  \<^verbatim>\<open>createPatient\<close> creates nothing and replies with an error, which for a well-formed
  number is the duplicate error naming a patient of the organization with that number.
  \<^verbatim>\<open>updatePatient\<close> with a changed, non-empty phone held by another patient of the
  organization replies with an error and changes nothing (the duplicate error when the
  number is well-formed). An update that keeps the patient's own phone, or sends none,
  is carried out.
\<close>

theorem duplicate_phone_rejected:
  "(findUser d userId = Some usr \<and> organizationOf d usr = Some org \<and>
    P1 \<in> set (patients d) \<and> clinicInOrg d (o_id org) (p_clinicId P1) \<and>
    p_phone P1 = pc_phone b
    \<longrightarrow> isError (fst (createPatient d userId b newId)) \<and>
        snd (createPatient d userId b newId) = d \<and>
        (phoneRegex (pc_phone b) \<longrightarrow>
           (\<exists>e\<in>set (patients d).
               p_phone e = pc_phone b \<and> clinicInOrg d (o_id org) (p_clinicId e) \<and>
               fst (createPatient d userId b newId) =
                 ErrorExisting 400 ''Patient with this phone number already exists''
                   (p_id e) (p_name e) (p_phone e)))) \<and>
   (findUser d userId = Some usr \<and> organizationOf d usr = Some org \<and>
    findFirst (patientScope d org i) (patients d) = Some P \<and>
    pb_phone u = Some ph \<and> ph \<noteq> [] \<and> ph \<noteq> p_phone P \<and>
    Q \<in> set (patients d) \<and> p_id Q \<noteq> i \<and> p_phone Q = ph \<and>
    clinicInOrg d (o_id org) (p_clinicId Q)
    \<longrightarrow> isError (fst (updatePatient d userId i u)) \<and>
        snd (updatePatient d userId i u) = d \<and>
        (phoneRegex ph \<longrightarrow> fst (updatePatient d userId i u) =
           Error 400 ''Another patient with this phone number already exists'')) \<and>
   (findUser d userId = Some usr \<and> organizationOf d usr = Some org \<and>
    findFirst (patientScope d org i) (patients d) = Some P \<and>
    (pb_phone u = None \<or> pb_phone u = Some (p_phone P))
    \<longrightarrow> updatePatient d userId i u = storePatientUpdate d i u P \<and>
        \<not> isError (fst (updatePatient d userId i u)))"
proof (intro conjI impI)
  assume h: "findUser d userId = Some usr \<and> organizationOf d usr = Some org \<and>
    P1 \<in> set (patients d) \<and> clinicInOrg d (o_id org) (p_clinicId P1) \<and>
    p_phone P1 = pc_phone b"
  then have u: "findUser d userId = Some usr" "organizationOf d usr = Some org"
    and P1: "P1 \<in> set (patients d)" "samePhoneInOrg d (o_id org) (pc_phone b) P1"
    by (simp_all add: samePhoneInOrg_def)
  from findFirst_exists [of P1 "patients d" "samePhoneInOrg d (o_id org) (pc_phone b)", OF P1]
  obtain e where e: "findFirst (samePhoneInOrg d (o_id org) (pc_phone b)) (patients d) = Some e"
    by (rule exE)
  show r: "isError (fst (createPatient d userId b newId))"
    by (rule createPatient_duplicate(1) [OF u e])
  then show "snd (createPatient d userId b newId) = d"
    by (rule createPatient_error_keeps)
  assume ok: "phoneRegex (pc_phone b)"
  from e have m: "e \<in> set (patients d)" "p_phone e = pc_phone b"
      "clinicInOrg d (o_id org) (p_clinicId e)"
    using findFirst_Some_holds [OF e] by (simp_all add: samePhoneInOrg_def)
  have "fst (createPatient d userId b newId) =
      ErrorExisting 400 ''Patient with this phone number already exists''
        (p_id e) (p_name e) (p_phone e)"
    by (rule createPatient_duplicate(2) [OF u e ok])
  with m show "\<exists>e\<in>set (patients d).
               p_phone e = pc_phone b \<and> clinicInOrg d (o_id org) (p_clinicId e) \<and>
               fst (createPatient d userId b newId) =
                 ErrorExisting 400 ''Patient with this phone number already exists''
                   (p_id e) (p_name e) (p_phone e)"
    by blast
next
  assume h: "findUser d userId = Some usr \<and> organizationOf d usr = Some org \<and>
    findFirst (patientScope d org i) (patients d) = Some P \<and>
    pb_phone u = Some ph \<and> ph \<noteq> [] \<and> ph \<noteq> p_phone P \<and>
    Q \<in> set (patients d) \<and> p_id Q \<noteq> i \<and> p_phone Q = ph \<and>
    clinicInOrg d (o_id org) (p_clinicId Q)"
  then have u: "findUser d userId = Some usr" "organizationOf d usr = Some org"
      "findFirst (patientScope d org i) (patients d) = Some P"
      "pb_phone u = Some ph" "ph \<noteq> []" "ph \<noteq> p_phone P"
    and Q: "Q \<in> set (patients d)" "samePhoneInOrg d (o_id org) ph Q \<and> p_id Q \<noteq> i"
    by (simp_all add: samePhoneInOrg_def)
  from findFirst_exists [of Q "patients d"
      "\<lambda>p. samePhoneInOrg d (o_id org) ph p \<and> p_id p \<noteq> i", OF Q]
  have dup: "findFirst (\<lambda>p. samePhoneInOrg d (o_id org) ph p \<and> p_id p \<noteq> i) (patients d) \<noteq> None"
    by auto
  show r: "isError (fst (updatePatient d userId i u))"
    by (rule updatePatient_duplicate(1) [OF u dup])
  then show "snd (updatePatient d userId i u) = d"
    by (rule updatePatient_error_keeps)
  assume "phoneRegex ph"
  then show "fst (updatePatient d userId i u) =
           Error 400 ''Another patient with this phone number already exists''"
    by (rule updatePatient_duplicate(2) [OF u dup])
next
  assume h: "findUser d userId = Some usr \<and> organizationOf d usr = Some org \<and>
    findFirst (patientScope d org i) (patients d) = Some P \<and>
    (pb_phone u = None \<or> pb_phone u = Some (p_phone P))"
  then have u: "findUser d userId = Some usr" "organizationOf d usr = Some org"
      "findFirst (patientScope d org i) (patients d) = Some P"
      "pb_phone u = None \<or> pb_phone u = Some (p_phone P)"
    by simp_all
  show r: "updatePatient d userId i u = storePatientUpdate d i u P"
    by (rule updatePatient_same_phone [OF u])
  show "\<not> isError (fst (updatePatient d userId i u))"
    unfolding r storePatientUpdate_def by simp
qed

theorem duplicate_phone_rejected_witness:
  "isError (fst (createPatient sample ''staff1'' (newPatient ''9876543210'') ''p9'')) \<and>
   (\<exists>e\<in>set (patients sample).
       p_phone e = pc_phone (newPatient ''9876543210'') \<and>
       clinicInOrg sample (o_id (organizations sample ! 0)) (p_clinicId e) \<and>
       fst (createPatient sample ''staff1'' (newPatient ''9876543210'') ''p9'') =
         ErrorExisting 400 ''Patient with this phone number already exists''
           (p_id e) (p_name e) (p_phone e)) \<and>
   fst (updatePatient sample ''staff1'' ''p2'' (setPhone ''9876543210'')) =
     Error 400 ''Another patient with this phone number already exists'' \<and>
   snd (updatePatient sample ''staff1'' ''p2'' (setPhone ''9876543210'')) = sample \<and>
   updatePatient sample ''staff1'' ''p1'' (setPhone ''9876543210'') =
     storePatientUpdate sample ''p1'' (setPhone ''9876543210'') (patients sample ! 0)"
proof -
  let ?org = "organizations sample ! 0"
  have taken: "findUser sample ''staff1'' = Some (sampleUsers ! 3) \<and>
      organizationOf sample (sampleUsers ! 3) = Some ?org \<and>
      patients sample ! 0 \<in> set (patients sample) \<and>
      clinicInOrg sample (o_id ?org) (p_clinicId (patients sample ! 0)) \<and>
      p_phone (patients sample ! 0) = pc_phone (newPatient ''9876543210'')"
    by (simp add: eval_defs newPatient_def)
  have wellformed: "phoneRegex (pc_phone (newPatient ''9876543210''))"
    by (simp add: newPatient_def phoneRegex_def isDigit_def)
  note c = duplicate_phone_rejected [of sample "''staff1''" "sampleUsers ! 3" ?org
      "patients sample ! 0" "newPatient ''9876543210''" "''p9''",
      THEN conjunct1, THEN mp, OF taken, THEN conjunct2, THEN conjunct2, THEN mp, OF wellformed]
  note c0 = duplicate_phone_rejected [of sample "''staff1''" "sampleUsers ! 3" ?org
      "patients sample ! 0" "newPatient ''9876543210''" "''p9''",
      THEN conjunct1, THEN mp, OF taken, THEN conjunct1]
  have other: "findUser sample ''staff1'' = Some (sampleUsers ! 3) \<and>
      organizationOf sample (sampleUsers ! 3) = Some ?org \<and>
      findFirst (patientScope sample ?org ''p2'') (patients sample) = Some (patients sample ! 1) \<and>
      pb_phone (setPhone ''9876543210'') = Some ''9876543210'' \<and> ''9876543210'' \<noteq> [] \<and>
      ''9876543210'' \<noteq> p_phone (patients sample ! 1) \<and>
      patients sample ! 0 \<in> set (patients sample) \<and> p_id (patients sample ! 0) \<noteq> ''p2'' \<and>
      p_phone (patients sample ! 0) = ''9876543210'' \<and>
      clinicInOrg sample (o_id ?org) (p_clinicId (patients sample ! 0))"
    by (simp add: eval_defs setPhone_def patientScope_def)
  have wf2: "phoneRegex ''9876543210''"
    by (simp add: phoneRegex_def isDigit_def)
  note u = duplicate_phone_rejected [of sample "''staff1''" "sampleUsers ! 3" ?org _ _ _
      "''p2''" "patients sample ! 1" "setPhone ''9876543210''" "''9876543210''" "patients sample ! 0",
      THEN conjunct2, THEN conjunct1, THEN mp, OF other]
  have u1: "fst (updatePatient sample ''staff1'' ''p2'' (setPhone ''9876543210'')) =
     Error 400 ''Another patient with this phone number already exists''"
    using u [THEN conjunct2, THEN conjunct2, THEN mp, OF wf2] .
  have u2: "snd (updatePatient sample ''staff1'' ''p2'' (setPhone ''9876543210'')) = sample"
    using u [THEN conjunct2, THEN conjunct1] .
  have own: "findUser sample ''staff1'' = Some (sampleUsers ! 3) \<and>
      organizationOf sample (sampleUsers ! 3) = Some ?org \<and>
      findFirst (patientScope sample ?org ''p1'') (patients sample) = Some (patients sample ! 0) \<and>
      (pb_phone (setPhone ''9876543210'') = None \<or>
       pb_phone (setPhone ''9876543210'') = Some (p_phone (patients sample ! 0)))"
    by (simp add: eval_defs setPhone_def patientScope_def)
  have k: "updatePatient sample ''staff1'' ''p1'' (setPhone ''9876543210'') =
     storePatientUpdate sample ''p1'' (setPhone ''9876543210'') (patients sample ! 0)"
    using duplicate_phone_rejected [of sample "''staff1''" "sampleUsers ! 3" ?org _ _ _
      "''p1''" "patients sample ! 0" "setPhone ''9876543210''",
      THEN conjunct2, THEN conjunct2, THEN mp, OF own, THEN conjunct1] .
  from c0 c u1 u2 k show ?thesis by (intro conjI)
qed

section \<open>The last administrator\<close>

lemma updateMany_none: "\<forall>x\<in>set xs. \<not> P x \<Longrightarrow> updateMany P g xs = xs"
  unfolding updateMany_def by (induction xs) auto

lemma updateMany_keys: "(\<And>x. f (g x) = f x) \<Longrightarrow> map f (updateMany P g xs) = map f xs"
  unfolding updateMany_def by (induction xs) auto

lemma count_Cons: "count Q (x # xs) = (if Q x then 1 else 0) + count Q xs"
  unfolding count_def by simp

lemma count_mem: "t \<in> set xs \<Longrightarrow> Q t \<Longrightarrow> 1 \<le> count Q xs"
  unfolding count_def by (induction xs) auto

lemma count_updateMany_key:
  assumes "distinct (map f xs)" and "t \<in> set xs" and "\<And>x. \<not> Q (g x)"
  shows "count Q (updateMany (\<lambda>x. f x = f t) g xs) = count Q xs - (if Q t then 1 else 0)"
  using assms(1,2)
proof (induction xs)
  case Nil
  then show ?case by simp
next
  case (Cons x xs)
  show ?case
  proof (cases "x = t")
    case True
    with Cons.prems have "f t \<notin> f ` set xs" by simp
    then have "\<forall>y\<in>set xs. f y \<noteq> f t" by (metis imageI)
    then have "updateMany (\<lambda>x. f x = f t) g xs = xs" by (simp add: updateMany_none)
    then have "updateMany (\<lambda>x. f x = f t) g (x # xs) = g t # xs"
      using True by (simp add: updateMany_def)
    with True assms(3) show ?thesis by (simp add: count_Cons)
  next
    case False
    with Cons.prems have t: "t \<in> set xs" and d: "distinct (map f xs)" and ne: "f x \<noteq> f t"
      by auto
    have "updateMany (\<lambda>x. f x = f t) g (x # xs) = x # updateMany (\<lambda>x. f x = f t) g xs"
      using ne by (simp add: updateMany_def)
    moreover have "count Q (updateMany (\<lambda>x. f x = f t) g xs) = count Q xs - (if Q t then 1 else 0)"
      using Cons.IH [OF d t] .
    moreover have "Q t \<Longrightarrow> 1 \<le> count Q xs" using t by (rule count_mem)
    ultimately show ?thesis by (auto simp: count_Cons)
  qed
qed

lemma removeUser_last_admin:
  assumes "findUser d adminUserId = Some adminUser" and "organizationOf d adminUser = Some org"
    and "findFirst (\<lambda>u. u_id u = targetUserId \<and> u_organizationId u = Some (o_id org)) (users d) = Some t"
    and "u_role t = ''ADMIN''" and "adminCount d (o_id org) \<le> 1"
  shows "removeUserFromOrganization d adminUserId targetUserId =
           (Error 400 ''Cannot remove the last admin from organization'', d)"
  using assms unfolding removeUserFromOrganization_def adminCount_def by simp

lemma removeUser_removes:
  assumes "findUser d adminUserId = Some adminUser" and "organizationOf d adminUser = Some org"
    and "findFirst (\<lambda>u. u_id u = targetUserId \<and> u_organizationId u = Some (o_id org)) (users d) = Some t"
    and "u_role t \<noteq> ''ADMIN'' \<or> 2 \<le> adminCount d (o_id org)"
  shows "removeUserFromOrganization d adminUserId targetUserId =
           (Json 200 ''User removed from organization'',
            d\<lparr>users := updateMany (\<lambda>u. u_id u = targetUserId)
                          (\<lambda>u. u\<lparr>u_organizationId := None\<rparr>) (users d)\<rparr>)"
  using assms unfolding removeUserFromOrganization_def adminCount_def by auto

lemma removeUser_cases:
  "(\<exists>c m. removeUserFromOrganization d adminUserId targetUserId = (Error c m, d)) \<or>
   (\<exists>(org::organization) t. t \<in> set (users d) \<and> u_id t = targetUserId \<and> u_organizationId t = Some (o_id org) \<and>
       (u_role t = ''ADMIN'' \<longrightarrow> 2 \<le> adminCount d (o_id org)) \<and>
       removeUserFromOrganization d adminUserId targetUserId =
           (Json 200 ''User removed from organization'',
            d\<lparr>users := updateMany (\<lambda>u. u_id u = targetUserId)
                          (\<lambda>u. u\<lparr>u_organizationId := None\<rparr>) (users d)\<rparr>))"
proof (cases "\<exists>c m. removeUserFromOrganization d adminUserId targetUserId = (Error c m, d)")
  case True
  then show ?thesis by blast
next
  case False
  then obtain adminUser org where u: "findUser d adminUserId = Some adminUser"
      "organizationOf d adminUser = Some org"
    unfolding removeUserFromOrganization_def by (auto split: option.splits)
  with False obtain t where
    t: "findFirst (\<lambda>u. u_id u = targetUserId \<and> u_organizationId u = Some (o_id org)) (users d) = Some t"
    unfolding removeUserFromOrganization_def by (auto split: option.splits)
  have ok: "u_role t \<noteq> ''ADMIN'' \<or> 2 \<le> adminCount d (o_id org)"
  proof (rule ccontr)
    assume "\<not> ?thesis"
    then have "u_role t = ''ADMIN''" and "adminCount d (o_id org) \<le> 1" by auto
    from removeUser_last_admin [OF u t this] False show False by blast
  qed
  from ok have imp: "u_role t = ''ADMIN'' \<longrightarrow> 2 \<le> adminCount d (o_id org)" by blast
  from findFirst_Some_holds [OF t]
  have "t \<in> set (users d)" "u_id t = targetUserId" "u_organizationId t = Some (o_id org)"
    by simp_all
  with imp removeUser_removes [OF u t ok]
  have "t \<in> set (users d) \<and> u_id t = targetUserId \<and> u_organizationId t = Some (o_id org) \<and>
       (u_role t = ''ADMIN'' \<longrightarrow> 2 \<le> adminCount d (o_id org)) \<and>
       removeUserFromOrganization d adminUserId targetUserId =
           (Json 200 ''User removed from organization'',
            d\<lparr>users := updateMany (\<lambda>u. u_id u = targetUserId)
                          (\<lambda>u. u\<lparr>u_organizationId := None\<rparr>) (users d)\<rparr>)"
    by (intro conjI)
  then show ?thesis
    by - (rule disjI2, rule exI [of _ org], rule exI [of _ t], assumption)
qed

lemma removeUser_keeps_ids:
  "map u_id (users (snd (removeUserFromOrganization d adminUserId targetUserId))) = map u_id (users d)"
  using removeUser_cases [of d adminUserId targetUserId]
proof (elim disjE exE conjE)
  fix c m
  assume "removeUserFromOrganization d adminUserId targetUserId = (Error c m, d)"
  then show ?thesis by simp
next
  fix org t
  assume "removeUserFromOrganization d adminUserId targetUserId =
           (Json 200 ''User removed from organization'',
            d\<lparr>users := updateMany (\<lambda>u. u_id u = targetUserId)
                          (\<lambda>u. u\<lparr>u_organizationId := None\<rparr>) (users d)\<rparr>)"
  then show ?thesis by (simp add: updateMany_keys)
qed

lemma removeUser_keeps_admin:
  assumes "distinct (map u_id (users d))" and "1 \<le> adminCount d oid"
  shows "1 \<le> adminCount (snd (removeUserFromOrganization d adminUserId targetUserId)) oid"
  using removeUser_cases [of d adminUserId targetUserId]
proof (elim disjE exE conjE)
  fix c m
  assume "removeUserFromOrganization d adminUserId targetUserId = (Error c m, d)"
  with assms(2) show ?thesis by simp
next
  fix org t
  let ?Q = "\<lambda>u. u_organizationId u = Some oid \<and> u_role u = ''ADMIN''"
  assume t: "t \<in> set (users d)" "u_id t = targetUserId" "u_organizationId t = Some (o_id org)"
    and two: "u_role t = ''ADMIN'' \<longrightarrow> 2 \<le> adminCount d (o_id org)"
    and r: "removeUserFromOrganization d adminUserId targetUserId =
           (Json 200 ''User removed from organization'',
            d\<lparr>users := updateMany (\<lambda>u. u_id u = targetUserId)
                          (\<lambda>u. u\<lparr>u_organizationId := None\<rparr>) (users d)\<rparr>)"
  have "count ?Q (updateMany (\<lambda>u. u_id u = u_id t) (\<lambda>u. u\<lparr>u_organizationId := None\<rparr>) (users d)) =
        count ?Q (users d) - (if ?Q t then 1 else 0)"
    by (rule count_updateMany_key [OF assms(1) t(1)]) simp
  then have c: "adminCount (snd (removeUserFromOrganization d adminUserId targetUserId)) oid =
        adminCount d oid - (if ?Q t then 1 else 0)"
    unfolding adminCount_def r using t(2) by simp
  show ?thesis
  proof (cases "?Q t")
    case True
    with t(3) two have "2 \<le> adminCount d oid" by simp
    with c True show ?thesis by simp
  next
    case False
    with c assms(2) show ?thesis by simp
  qed
qed

lemma removeAll_keeps_admin:
  "distinct (map u_id (users d)) \<Longrightarrow> 1 \<le> adminCount d oid \<Longrightarrow>
   1 \<le> adminCount (removeAll d calls) oid"
proof (induction calls arbitrary: d)
  case Nil
  then show ?case by simp
next
  case (Cons call calls)
  obtain a t where call: "call = (a, t)" by (cases call)
  let ?d = "snd (removeUserFromOrganization d a t)"
  have ids: "distinct (map u_id (users ?d))"
    using Cons.prems(1) by (simp add: removeUser_keeps_ids)
  have adm: "1 \<le> adminCount ?d oid"
    using Cons.prems by (rule removeUser_keeps_admin)
  from Cons.IH [OF ids adm] show ?case
    unfolding call by simp
qed

text \<open>
  \<^bold>\<open>C5.\<close> With the caller in an organization and the target a member of it, removing
  the target is refused with the last-admin error when the target is an ADMIN and the
  organization has at most one ADMIN, and is carried out (the target's organization
  becomes null) when the target is no ADMIN or the organization has at least two.
  Hence an organization that has an ADMIN still has one after any removal call, and
  after any sequence of removal calls. User ids are unique (the primary key).
\<close>

theorem last_admin_protected:
  "(distinct (map u_id (users d)) \<and> findUser d adminUserId = Some adminUser \<and>
    organizationOf d adminUser = Some org \<and>
    t \<in> set (users d) \<and> u_id t = targetUserId \<and> u_organizationId t = Some (o_id org)
    \<longrightarrow> (u_role t = ''ADMIN'' \<and> adminCount d (o_id org) \<le> 1
          \<longrightarrow> removeUserFromOrganization d adminUserId targetUserId =
                (Error 400 ''Cannot remove the last admin from organization'', d)) \<and>
        (u_role t \<noteq> ''ADMIN'' \<or> 2 \<le> adminCount d (o_id org)
          \<longrightarrow> fst (removeUserFromOrganization d adminUserId targetUserId) =
                Json 200 ''User removed from organization'' \<and>
              t\<lparr>u_organizationId := None\<rparr>
                \<in> set (users (snd (removeUserFromOrganization d adminUserId targetUserId))) \<and>
              (\<forall>x\<in>set (users (snd (removeUserFromOrganization d adminUserId targetUserId))).
                  u_id x = targetUserId \<longrightarrow> u_organizationId x = None))) \<and>
   (distinct (map u_id (users d)) \<and> 1 \<le> adminCount d oid
    \<longrightarrow> 1 \<le> adminCount (snd (removeUserFromOrganization d adminUserId targetUserId)) oid \<and>
        1 \<le> adminCount (removeAll d calls) oid)"
proof (intro conjI impI)
  assume h: "distinct (map u_id (users d)) \<and> findUser d adminUserId = Some adminUser \<and>
    organizationOf d adminUser = Some org \<and>
    t \<in> set (users d) \<and> u_id t = targetUserId \<and> u_organizationId t = Some (o_id org)"
  then have u: "findUser d adminUserId = Some adminUser" "organizationOf d adminUser = Some org"
    and dist: "distinct (map u_id (users d))"
    and t: "t \<in> set (users d)" "u_id t = targetUserId \<and> u_organizationId t = Some (o_id org)"
    by simp_all
  from findFirst_exists [of t "users d"
      "\<lambda>u. u_id u = targetUserId \<and> u_organizationId u = Some (o_id org)", OF t]
  obtain b where b: "findFirst (\<lambda>u. u_id u = targetUserId \<and> u_organizationId u = Some (o_id org))
      (users d) = Some b"
    by (rule exE)
  from findFirst_Some_holds [OF b] t(2) have "u_id b = u_id t" by simp
  from findFirst_distinct_key [OF dist t(1) b this] have bt: "b = t" .
  note found = b [unfolded bt]
  {
    assume "u_role t = ''ADMIN'' \<and> adminCount d (o_id org) \<le> 1"
    then have "u_role t = ''ADMIN''" and "adminCount d (o_id org) \<le> 1" by simp_all
    from removeUser_last_admin [OF u found this]
    show "removeUserFromOrganization d adminUserId targetUserId =
                (Error 400 ''Cannot remove the last admin from organization'', d)" .
  }
  assume ok: "u_role t \<noteq> ''ADMIN'' \<or> 2 \<le> adminCount d (o_id org)"
  note r = removeUser_removes [OF u found ok]
  show "fst (removeUserFromOrganization d adminUserId targetUserId) =
                Json 200 ''User removed from organization''"
    by (simp add: r)
  have us: "users (snd (removeUserFromOrganization d adminUserId targetUserId)) =
      updateMany (\<lambda>u. u_id u = targetUserId) (\<lambda>u. u\<lparr>u_organizationId := None\<rparr>) (users d)"
    by (simp add: r)
  show "t\<lparr>u_organizationId := None\<rparr>
                \<in> set (users (snd (removeUserFromOrganization d adminUserId targetUserId)))"
    unfolding us using t by (simp add: updateMany_hit)
  show "\<forall>x\<in>set (users (snd (removeUserFromOrganization d adminUserId targetUserId))).
                  u_id x = targetUserId \<longrightarrow> u_organizationId x = None"
  proof (intro ballI impI)
    fix x
    assume "x \<in> set (users (snd (removeUserFromOrganization d adminUserId targetUserId)))"
      and "u_id x = targetUserId"
    with updateMany_cases [of x "\<lambda>u. u_id u = targetUserId" _ "users d"]
    obtain x0 where "x = x0\<lparr>u_organizationId := None\<rparr>"
      unfolding us by blast
    then show "u_organizationId x = None" by simp
  qed
next
  assume "distinct (map u_id (users d)) \<and> 1 \<le> adminCount d oid"
  then have "distinct (map u_id (users d))" and "1 \<le> adminCount d oid" by blast+
  then show "1 \<le> adminCount (snd (removeUserFromOrganization d adminUserId targetUserId)) oid"
    by (rule removeUser_keeps_admin)
next
  assume "distinct (map u_id (users d)) \<and> 1 \<le> adminCount d oid"
  then have "distinct (map u_id (users d))" and "1 \<le> adminCount d oid" by blast+
  then show "1 \<le> adminCount (removeAll d calls) oid"
    by (rule removeAll_keeps_admin)
qed

theorem last_admin_protected_witness:
  "removeUserFromOrganization sample ''admin1'' ''admin1'' =
     (Error 400 ''Cannot remove the last admin from organization'', sample) \<and>
   fst (removeUserFromOrganization sample ''admin1'' ''doc1'') =
     Json 200 ''User removed from organization'' \<and>
   fst (removeUserFromOrganization sample ''admin2'' ''admin3'') =
     Json 200 ''User removed from organization'' \<and>
   1 \<le> adminCount (removeAll sample [(''admin2'', ''admin3''), (''admin2'', ''admin2'')]) ''org2''"
proof -
  let ?o1 = "organizations sample ! 0" and ?o2 = "organizations sample ! 1"
  have sole: "distinct (map u_id (users sample)) \<and> findUser sample ''admin1'' = Some (sampleUsers ! 0) \<and>
      organizationOf sample (sampleUsers ! 0) = Some ?o1 \<and>
      sampleUsers ! 0 \<in> set (users sample) \<and> u_id (sampleUsers ! 0) = ''admin1'' \<and>
      u_organizationId (sampleUsers ! 0) = Some (o_id ?o1)"
    by (simp add: eval_defs)
  have one: "u_role (sampleUsers ! 0) = ''ADMIN'' \<and> adminCount sample (o_id ?o1) \<le> 1"
    by (simp add: eval_defs adminCount_def)
  have doc: "distinct (map u_id (users sample)) \<and> findUser sample ''admin1'' = Some (sampleUsers ! 0) \<and>
      organizationOf sample (sampleUsers ! 0) = Some ?o1 \<and>
      sampleUsers ! 1 \<in> set (users sample) \<and> u_id (sampleUsers ! 1) = ''doc1'' \<and>
      u_organizationId (sampleUsers ! 1) = Some (o_id ?o1)"
    by (simp add: eval_defs)
  have nonadmin: "u_role (sampleUsers ! 1) \<noteq> ''ADMIN'' \<or> 2 \<le> adminCount sample (o_id ?o1)"
    by (simp add: eval_defs)
  have second: "distinct (map u_id (users sample)) \<and> findUser sample ''admin2'' = Some (sampleUsers ! 4) \<and>
      organizationOf sample (sampleUsers ! 4) = Some ?o2 \<and>
      sampleUsers ! 5 \<in> set (users sample) \<and> u_id (sampleUsers ! 5) = ''admin3'' \<and>
      u_organizationId (sampleUsers ! 5) = Some (o_id ?o2)"
    by (simp add: eval_defs)
  have two: "u_role (sampleUsers ! 5) \<noteq> ''ADMIN'' \<or> 2 \<le> adminCount sample (o_id ?o2)"
    by (simp add: eval_defs adminCount_def)
  have inv: "distinct (map u_id (users sample)) \<and> 1 \<le> adminCount sample ''org2''"
    by (simp add: eval_defs adminCount_def)
  note a = last_admin_protected [of sample "''admin1''" "sampleUsers ! 0" ?o1 "sampleUsers ! 0"
      "''admin1''", THEN conjunct1, THEN mp, OF sole, THEN conjunct1, THEN mp, OF one]
  note b = last_admin_protected [of sample "''admin1''" "sampleUsers ! 0" ?o1 "sampleUsers ! 1"
      "''doc1''", THEN conjunct1, THEN mp, OF doc, THEN conjunct2, THEN mp, OF nonadmin,
      THEN conjunct1]
  note c = last_admin_protected [of sample "''admin2''" "sampleUsers ! 4" ?o2 "sampleUsers ! 5"
      "''admin3''", THEN conjunct1, THEN mp, OF second, THEN conjunct2, THEN mp, OF two,
      THEN conjunct1]
  note e = last_admin_protected [of sample _ _ _ _ _ "''org2''"
      "[(''admin2'', ''admin3''), (''admin2'', ''admin2'')]",
      THEN conjunct2, THEN mp, OF inv, THEN conjunct2]
  from a b c e show ?thesis by (intro conjI)
qed

section \<open>Invitations are used at most once\<close>

lemma findFirst_updateMany:
  assumes "\<And>x. Q (g x) = Q x"
  shows "findFirst Q (updateMany P g xs) =
           map_option (\<lambda>x. if P x then g x else x) (findFirst Q xs)"
  unfolding findFirst_def updateMany_def using assms by (induction xs) auto

lemma findFirst_append:
  "findFirst Q xs = Some v \<Longrightarrow> findFirst Q (xs @ ys) = Some v"
  unfolding findFirst_def by (induction xs) (auto split: if_splits)

lemma findFirst_append_new:
  "findFirst Q xs = None \<Longrightarrow> Q y \<Longrightarrow> findFirst Q (xs @ [y]) = Some y"
  unfolding findFirst_def by (induction xs) (auto split: if_splits)

lemma join_dead:
  assumes "findFirst (\<lambda>v. i_token v = token) (invites d) = Some v"
    and "i_isUsed v \<or> i_expiresAt v < now"
  shows "joinOrganization d userId token now =
           (Error 400 (if i_isUsed v then ''Invitation has already been used''
                       else ''Invitation has expired''), d)"
  using assms unfolding joinOrganization_def by auto

lemma join_cases:
  "(\<exists>c m. joinOrganization d userId token now = (Error c m, d)) \<or>
   (\<exists>v r. findFirst (\<lambda>v. i_token v = token) (invites d) = Some v \<and>
      joinOrganization d userId token now =
        (r, d\<lparr>users := updateMany (\<lambda>u. u_id u = userId)
                          (\<lambda>u. u\<lparr>u_organizationId := Some (i_organizationId v),
                                 u_role := i_role v\<rparr>) (users d),
              invites := updateMany (\<lambda>x. i_id x = i_id v) (\<lambda>x. x\<lparr>i_isUsed := True\<rparr>)
                           (invites d)\<rparr>))"
proof (cases "findFirst (\<lambda>v. i_token v = token) (invites d)")
  case None
  then show ?thesis unfolding joinOrganization_def by simp
next
  case (Some v)
  show ?thesis
  proof (cases "i_isUsed v \<or> i_expiresAt v < now")
    case True
    from join_dead [OF Some True] show ?thesis by blast
  next
    case live: False
    show ?thesis
    proof (cases "findUser d userId")
      case None
      with Some live show ?thesis unfolding joinOrganization_def by simp
    next
      case u: (Some usr)
      show ?thesis
      proof (cases "truthy (u_organizationId usr)")
        case True
        with Some live u show ?thesis unfolding joinOrganization_def by simp
      next
        case False
        with Some live u have "\<exists>r. joinOrganization d userId token now =
          (r, d\<lparr>users := updateMany (\<lambda>u. u_id u = userId)
                          (\<lambda>u. u\<lparr>u_organizationId := Some (i_organizationId v),
                                 u_role := i_role v\<rparr>) (users d),
              invites := updateMany (\<lambda>x. i_id x = i_id v) (\<lambda>x. x\<lparr>i_isUsed := True\<rparr>)
                           (invites d)\<rparr>)"
          unfolding joinOrganization_def Let_def by (simp split: option.splits)
        with Some show ?thesis by blast
      qed
    qed
  qed
qed

lemma join_marks_used:
  assumes "fst (joinOrganization d userId token now) = Json 200 org"
  shows "\<exists>v. findFirst (\<lambda>v. i_token v = token)
               (invites (snd (joinOrganization d userId token now))) = Some v \<and> i_isUsed v"
  using join_cases [of d userId token now]
proof (elim disjE exE conjE)
  fix c m
  assume "joinOrganization d userId token now = (Error c m, d)"
  with assms show ?thesis by simp
next
  fix v r
  assume v: "findFirst (\<lambda>v. i_token v = token) (invites d) = Some v"
    and r: "joinOrganization d userId token now =
        (r, d\<lparr>users := updateMany (\<lambda>u. u_id u = userId)
                          (\<lambda>u. u\<lparr>u_organizationId := Some (i_organizationId v),
                                 u_role := i_role v\<rparr>) (users d),
              invites := updateMany (\<lambda>x. i_id x = i_id v) (\<lambda>x. x\<lparr>i_isUsed := True\<rparr>)
                           (invites d)\<rparr>)"
  have "findFirst (\<lambda>v. i_token v = token)
          (updateMany (\<lambda>x. i_id x = i_id v) (\<lambda>x. x\<lparr>i_isUsed := True\<rparr>) (invites d)) =
        Some (v\<lparr>i_isUsed := True\<rparr>)"
    by (subst findFirst_updateMany) (simp_all add: v)
  then show ?thesis by (simp add: r)
qed

lemma join_keeps_dead:
  assumes "inviteDead d token t"
  shows "inviteDead (snd (joinOrganization d userId token' now)) token t"
  using join_cases [of d userId token' now]
proof (elim disjE exE conjE)
  fix c m
  assume "joinOrganization d userId token' now = (Error c m, d)"
  with assms show ?thesis by simp
next
  fix v r
  assume r: "joinOrganization d userId token' now =
        (r, d\<lparr>users := updateMany (\<lambda>u. u_id u = userId)
                          (\<lambda>u. u\<lparr>u_organizationId := Some (i_organizationId v),
                                 u_role := i_role v\<rparr>) (users d),
              invites := updateMany (\<lambda>x. i_id x = i_id v) (\<lambda>x. x\<lparr>i_isUsed := True\<rparr>)
                           (invites d)\<rparr>)"
  from assms obtain w where w: "findFirst (\<lambda>v. i_token v = token) (invites d) = Some w"
      "i_isUsed w \<or> i_expiresAt w < t"
    unfolding inviteDead_def by (auto split: option.splits)
  have "findFirst (\<lambda>v. i_token v = token)
          (updateMany (\<lambda>x. i_id x = i_id v) (\<lambda>x. x\<lparr>i_isUsed := True\<rparr>) (invites d)) =
        Some (if i_id w = i_id v then w\<lparr>i_isUsed := True\<rparr> else w)"
    by (subst findFirst_updateMany) (simp_all add: w)
  with w(2) show ?thesis
    unfolding inviteDead_def by (simp add: r)
qed

lemma inviteUser_cases:
  "snd (inviteUser d userId email role now token newId mailed) = d \<or>
   (\<exists>v. i_token v = token \<and> \<not> i_isUsed v \<and> i_expiresAt v = now + 7 * 24 * 60 * 60 * 1000 \<and>
        snd (inviteUser d userId email role now token newId mailed) =
          d\<lparr>invites := invites d @ [v]\<rparr>)"
proof (cases "snd (inviteUser d userId email role now token newId mailed) = d")
  case True
  then show ?thesis by simp
next
  case False
  then obtain usr org where u: "findUser d userId = Some usr" "organizationOf d usr = Some org"
    unfolding inviteUser_def by (auto split: option.splits)
  let ?v = "\<lparr>i_id = newId, i_email = email, i_token = token,
             i_role = strOr role ''DOCTOR'', i_organizationId = o_id org,
             i_invitedBy = userId, i_isUsed = False,
             i_expiresAt = now + 7 * 24 * 60 * 60 * 1000\<rparr>"
  from False u have "snd (inviteUser d userId email role now token newId mailed) =
      d\<lparr>invites := invites d @ [?v]\<rparr>"
    unfolding inviteUser_def Let_def by (simp split: if_splits)
  then have "i_token ?v = token \<and> \<not> i_isUsed ?v \<and>
      i_expiresAt ?v = now + 7 * 24 * 60 * 60 * 1000 \<and>
      snd (inviteUser d userId email role now token newId mailed) =
          d\<lparr>invites := invites d @ [?v]\<rparr>"
    by simp
  then show ?thesis
    by - (rule disjI2, rule exI [of _ ?v], assumption)
qed

lemma inviteUser_keeps_dead:
  assumes "inviteDead d token t"
  shows "inviteDead (snd (inviteUser d userId email role now token' newId mailed)) token t"
  using inviteUser_cases [of d userId email role now token' newId mailed]
proof (elim disjE exE conjE)
  assume "snd (inviteUser d userId email role now token' newId mailed) = d"
  with assms show ?thesis by simp
next
  fix v
  assume r: "snd (inviteUser d userId email role now token' newId mailed) =
          d\<lparr>invites := invites d @ [v]\<rparr>"
  from assms obtain w where w: "findFirst (\<lambda>v. i_token v = token) (invites d) = Some w"
      "i_isUsed w \<or> i_expiresAt w < t"
    unfolding inviteDead_def by (auto split: option.splits)
  from findFirst_append [OF w(1)] w(2) show ?thesis
    unfolding inviteDead_def r by simp
qed

lemma removeUser_keeps_invites:
  "invites (snd (removeUserFromOrganization d adminUserId targetUserId)) = invites d"
  using removeUser_cases [of d adminUserId targetUserId]
proof (elim disjE exE conjE)
  fix c m
  assume "removeUserFromOrganization d adminUserId targetUserId = (Error c m, d)"
  then show ?thesis by simp
next
  fix org :: organization and t
  assume "removeUserFromOrganization d adminUserId targetUserId =
           (Json 200 ''User removed from organization'',
            d\<lparr>users := updateMany (\<lambda>u. u_id u = targetUserId)
                          (\<lambda>u. u\<lparr>u_organizationId := None\<rparr>) (users d)\<rparr>)"
  then show ?thesis by simp
qed

lemma runCall_keeps_dead: "inviteDead d token t \<Longrightarrow> inviteDead (runCall d c) token t"
proof (cases c)
  case (Join u tok n)
  assume "inviteDead d token t"
  then show ?thesis unfolding Join by (simp add: join_keeps_dead)
next
  case (Invite u e r n tok i m)
  assume "inviteDead d token t"
  then show ?thesis unfolding Invite by (simp add: inviteUser_keeps_dead)
next
  case (Remove a b)
  assume "inviteDead d token t"
  then show ?thesis unfolding Remove
    by (simp add: inviteDead_def removeUser_keeps_invites)
qed

lemma runCalls_keeps_dead: "inviteDead d token t \<Longrightarrow> inviteDead (runCalls d cs) token t"
  by (induction cs arbitrary: d) (simp_all add: runCall_keeps_dead)

lemma dead_join_rejected:
  assumes "inviteDead d token now"
  shows "isError (fst (joinOrganization d userId token now)) \<and>
         snd (joinOrganization d userId token now) = d"
proof -
  from assms obtain w where w: "findFirst (\<lambda>v. i_token v = token) (invites d) = Some w"
      "i_isUsed w \<or> i_expiresAt w < now"
    unfolding inviteDead_def by (auto split: option.splits)
  from join_dead [OF w] show ?thesis by simp
qed

lemma inviteUser_success:
  assumes "fst (inviteUser d userId email role now token newId mailed) = Json 200 m"
  shows "\<exists>v. i_token v = token \<and> \<not> i_isUsed v \<and>
             i_expiresAt v = now + 7 * 24 * 60 * 60 * 1000 \<and>
             invites (snd (inviteUser d userId email role now token newId mailed)) =
               invites d @ [v]"
proof -
  from assms obtain usr org where u: "findUser d userId = Some usr" "organizationOf d usr = Some org"
    unfolding inviteUser_def by (auto split: option.splits)
  let ?v = "\<lparr>i_id = newId, i_email = email, i_token = token,
             i_role = strOr role ''DOCTOR'', i_organizationId = o_id org,
             i_invitedBy = userId, i_isUsed = False,
             i_expiresAt = now + 7 * 24 * 60 * 60 * 1000\<rparr>"
  from assms u have "invites (snd (inviteUser d userId email role now token newId mailed)) =
      invites d @ [?v]"
    unfolding inviteUser_def Let_def by (simp split: if_splits)
  then have "i_token ?v = token \<and> \<not> i_isUsed ?v \<and>
      i_expiresAt ?v = now + 7 * 24 * 60 * 60 * 1000 \<and>
      invites (snd (inviteUser d userId email role now token newId mailed)) = invites d @ [?v]"
    by simp
  then show ?thesis
    by - (rule exI [of _ ?v], assumption)
qed

text \<open>
  \<^bold>\<open>C6.\<close> A successful \<^verbatim>\<open>joinOrganization\<close> marks the invite of its token used; an
  invite made by \<^verbatim>\<open>inviteUser\<close> at \<open>t0\<close> expires at \<open>t0\<close> plus seven days. Once the
  invite of a token is used, or its expiry lies strictly before the instant of the
  call, \<^verbatim>\<open>joinOrganization\<close> with that token is rejected and leaves the store (so the
  caller's membership) unchanged, and this stays so after any further calls of the
  join, invite and removal handlers.
\<close>

theorem dead_invite_never_joins:
  "(fst (joinOrganization d userId token now) = Json 200 org
    \<longrightarrow> (\<exists>v. findFirst (\<lambda>v. i_token v = token)
               (invites (snd (joinOrganization d userId token now))) = Some v \<and> i_isUsed v)) \<and>
   (findFirst (\<lambda>v. i_token v = token) (invites d) = None \<and>
    fst (inviteUser d userId email role now token newId mailed) = Json 200 m
    \<longrightarrow> (\<exists>v. findFirst (\<lambda>v. i_token v = token)
               (invites (snd (inviteUser d userId email role now token newId mailed))) = Some v \<and>
             \<not> i_isUsed v \<and> i_expiresAt v = now + 7 * 24 * 60 * 60 * 1000)) \<and>
   (findFirst (\<lambda>v. i_token v = token) (invites d) = Some w \<and>
    (i_isUsed w \<or> i_expiresAt w < now)
    \<longrightarrow> isError (fst (joinOrganization (runCalls d calls) caller token now)) \<and>
        snd (joinOrganization (runCalls d calls) caller token now) = runCalls d calls \<and>
        findUser (snd (joinOrganization (runCalls d calls) caller token now)) caller =
          findUser (runCalls d calls) caller)"
proof (intro conjI impI)
  assume "fst (joinOrganization d userId token now) = Json 200 org"
  then show "\<exists>v. findFirst (\<lambda>v. i_token v = token)
               (invites (snd (joinOrganization d userId token now))) = Some v \<and> i_isUsed v"
    by (rule join_marks_used)
next
  assume h: "findFirst (\<lambda>v. i_token v = token) (invites d) = None \<and>
    fst (inviteUser d userId email role now token newId mailed) = Json 200 m"
  then have none: "findFirst (\<lambda>v. i_token v = token) (invites d) = None"
    and ok: "fst (inviteUser d userId email role now token newId mailed) = Json 200 m"
    by simp_all
  from inviteUser_success [OF ok] obtain v where v: "i_token v = token" "\<not> i_isUsed v"
      "i_expiresAt v = now + 7 * 24 * 60 * 60 * 1000"
      "invites (snd (inviteUser d userId email role now token newId mailed)) = invites d @ [v]"
    by blast
  have "findFirst (\<lambda>v. i_token v = token) (invites d @ [v]) = Some v"
    using none v(1) by (rule findFirst_append_new)
  with v show "\<exists>v. findFirst (\<lambda>v. i_token v = token)
               (invites (snd (inviteUser d userId email role now token newId mailed))) = Some v \<and>
             \<not> i_isUsed v \<and> i_expiresAt v = now + 7 * 24 * 60 * 60 * 1000"
    by simp
next
  assume h: "findFirst (\<lambda>v. i_token v = token) (invites d) = Some w \<and>
    (i_isUsed w \<or> i_expiresAt w < now)"
  then have "inviteDead d token now" by (simp add: inviteDead_def)
  then have dead: "inviteDead (runCalls d calls) token now" by (rule runCalls_keeps_dead)
  from dead_join_rejected [OF dead]
  show "isError (fst (joinOrganization (runCalls d calls) caller token now))"
    and k: "snd (joinOrganization (runCalls d calls) caller token now) = runCalls d calls"
    by simp_all
  show "findUser (snd (joinOrganization (runCalls d calls) caller token now)) caller =
          findUser (runCalls d calls) caller"
    by (simp add: k)
qed

theorem dead_invite_never_joins_witness:
  "(\<exists>v. findFirst (\<lambda>v. i_token v = ''tok1'') (invites joined) = Some v \<and> i_isUsed v) \<and>
   isError (fst (joinOrganization (runCalls joined [Join ''guest'' ''tok1'' 1500000, Remove ''admin1'' ''guest''])
              ''guest'' ''tok1'' 2000000)) \<and>
   isError (fst (joinOrganization sample ''guest'' ''tok1'' 604900001)) \<and>
   snd (joinOrganization sample ''guest'' ''tok1'' 604900001) = sample \<and>
   (\<exists>v. findFirst (\<lambda>v. i_token v = ''tok2'')
          (invites (snd (inviteUser sample ''admin1'' ''n@x'' None 1000000 ''tok2'' ''inv2'' True))) = Some v \<and>
        \<not> i_isUsed v \<and> i_expiresAt v = 1000000 + 7 * 24 * 60 * 60 * 1000)"
proof -
  have ok: "fst (joinOrganization sample ''guest'' ''tok1'' 1000000) = Json 200 (organizations sample ! 0)"
    by (simp add: joinOrganization_def eval_defs)
  note a = dead_invite_never_joins [where d = sample and userId = "''guest''" and token = "''tok1''"
      and now = 1000000 and org = "organizations sample ! 0",
      THEN conjunct1, THEN mp, OF ok, folded joined_def]
  have used: "findFirst (\<lambda>v. i_token v = ''tok1'') (invites joined) = Some ((invites sample ! 0)\<lparr>i_isUsed := True\<rparr>) \<and>
      (i_isUsed ((invites sample ! 0)\<lparr>i_isUsed := True\<rparr>) \<or>
       i_expiresAt ((invites sample ! 0)\<lparr>i_isUsed := True\<rparr>) < 2000000)"
    by (simp add: joined_def joinOrganization_def eval_defs)
  note b = dead_invite_never_joins [where d = joined and token = "''tok1''" and now = 2000000
      and w = "(invites sample ! 0)\<lparr>i_isUsed := True\<rparr>"
      and calls = "[Join ''guest'' ''tok1'' 1500000, Remove ''admin1'' ''guest'']"
      and caller = "''guest''",
      THEN conjunct2, THEN conjunct2, THEN mp, OF used, THEN conjunct1]
  have late: "findFirst (\<lambda>v. i_token v = ''tok1'') (invites sample) = Some (invites sample ! 0) \<and>
      (i_isUsed (invites sample ! 0) \<or> i_expiresAt (invites sample ! 0) < 604900001)"
    by (simp add: eval_defs)
  note c = dead_invite_never_joins [where d = sample and token = "''tok1''" and now = 604900001
      and w = "invites sample ! 0" and calls = "[]" and caller = "''guest''",
      THEN conjunct2, THEN conjunct2, THEN mp, OF late, simplified runCalls.simps]
  have fresh: "findFirst (\<lambda>v. i_token v = ''tok2'') (invites sample) = None \<and>
      fst (inviteUser sample ''admin1'' ''n@x'' None 1000000 ''tok2'' ''inv2'' True) =
        Json 200 ''Invitation sent successfully''"
    by (simp add: inviteUser_def eval_defs)
  note e = dead_invite_never_joins [where d = sample and userId = "''admin1''" and token = "''tok2''"
      and now = 1000000 and email = "''n@x''" and role = None and newId = "''inv2''"
      and mailed = True and m = "''Invitation sent successfully''",
      THEN conjunct2, THEN conjunct1, THEN mp, OF fresh]
  from a b c [THEN conjunct1] c [THEN conjunct2, THEN conjunct1] e
  show ?thesis by (intro conjI)
qed

section \<open>The payment webhook\<close>

lemma setSubscriptions_addOns:
  assumes "findFirst (\<lambda>s. s_razorpaySubscriptionId s = sid) (subscriptions d) = Some sub"
    and "\<And>s. s_razorpaySubscriptionId (f s) = s_razorpaySubscriptionId s"
    and "\<And>s. s_organizationId (f s) = s_organizationId s"
  shows "organizationAddOns (setSubscriptions d sid f active) =
           updateMany (\<lambda>x. oa_organizationId x = s_organizationId sub)
             (\<lambda>x. x\<lparr>oa_isActive := active\<rparr>) (organizationAddOns d)"
proof -
  have "findFirst (\<lambda>s. s_razorpaySubscriptionId s = sid)
          (updateMany (\<lambda>s. s_razorpaySubscriptionId s = sid) f (subscriptions d)) =
        Some (f sub)"
    using findFirst_Some_holds [OF assms(1)]
    by (subst findFirst_updateMany) (simp_all add: assms)
  then show ?thesis
    unfolding setSubscriptions_def Let_def by (simp add: assms(3))
qed

lemma toggle_frame:
  "map oa_usageCount (updateMany P (\<lambda>x. x\<lparr>oa_isActive := b\<rparr>) xs) = map oa_usageCount xs"
  "map oa_id (updateMany P (\<lambda>x. x\<lparr>oa_isActive := b\<rparr>) xs) = map oa_id xs"
  "map oa_addOnId (updateMany P (\<lambda>x. x\<lparr>oa_isActive := b\<rparr>) xs) = map oa_addOnId xs"
  "map oa_organizationId (updateMany P (\<lambda>x. x\<lparr>oa_isActive := b\<rparr>) xs) = map oa_organizationId xs"
  by (rule updateMany_keys, simp)+

lemma toggle_all:
  assumes "x \<in> set (updateMany (\<lambda>x. oa_organizationId x = oid) (\<lambda>x. x\<lparr>oa_isActive := b\<rparr>) xs)"
    and "oa_organizationId x = oid"
  shows "oa_isActive x = b"
proof -
  from updateMany_cases [OF assms(1)] assms(2)
  obtain x0 where "x = x0\<lparr>oa_isActive := b\<rparr>" by blast
  then show ?thesis by simp
qed

lemma toggle_others:
  "{x \<in> set (updateMany (\<lambda>x. oa_organizationId x = oid) (\<lambda>x. x\<lparr>oa_isActive := b\<rparr>) xs).
      oa_organizationId x \<noteq> oid} = {x \<in> set xs. oa_organizationId x \<noteq> oid}"
  by (rule updateMany_others) simp

lemma webhook_cancelled:
  assumes "wb_event b = ''subscription.cancelled''" and "wb_subscriptionId b = Some sid"
  shows "handleRazorpayWebhook d b sg now =
           (Json 200 ''ok'',
            setSubscriptions d sid (\<lambda>s. s\<lparr>s_status := ''CANCELLED'', s_endDate := Some now\<rparr>) False)"
  using assms unfolding handleRazorpayWebhook_def verifyRazorpayWebhook_def by simp

lemma webhook_activated:
  assumes "wb_event b = ''subscription.activated''" and "wb_subscriptionId b = Some sid"
  shows "handleRazorpayWebhook d b sg now =
           (Json 200 ''ok'', setSubscriptions d sid (\<lambda>s. s\<lparr>s_status := ''ACTIVE''\<rparr>) True)"
  using assms unfolding handleRazorpayWebhook_def verifyRazorpayWebhook_def by simp

lemma webhook_toggle:
  assumes "wb_event b = ''subscription.cancelled'' \<and> \<not> active \<or>
           wb_event b = ''subscription.activated'' \<and> active"
    and "wb_subscriptionId b = Some sid"
    and "findFirst (\<lambda>s. s_razorpaySubscriptionId s = sid) (subscriptions d) = Some sub"
  shows "fst (handleRazorpayWebhook d b sg now) = Json 200 ''ok''"
    and "organizationAddOns (snd (handleRazorpayWebhook d b sg now)) =
           updateMany (\<lambda>x. oa_organizationId x = s_organizationId sub)
             (\<lambda>x. x\<lparr>oa_isActive := active\<rparr>) (organizationAddOns d)"
  using assms(1)
  by (auto simp: webhook_cancelled [OF _ assms(2)] webhook_activated [OF _ assms(2)]
        setSubscriptions_addOns [OF assms(3)])

text \<open>
  \<^bold>\<open>C10.\<close> On a \<^verbatim>\<open>subscription.cancelled\<close> event whose subscription id matches a
  stored subscription, the handler replies ok and sets \<open>isActive\<close> to false on every
  \<open>OrganizationAddOn\<close> row of that subscription's organization, whatever add-on the row
  is for; the rows of other organizations are the same as before, and every row keeps
  its id, add-on, organization and \<open>usageCount\<close>. \<^verbatim>\<open>subscription.activated\<close> does the
  same with true.
\<close>

theorem webhook_toggles_whole_organization:
  "(wb_event b = ''subscription.cancelled'' \<and> \<not> active \<or>
    wb_event b = ''subscription.activated'' \<and> active) \<and>
   wb_subscriptionId b = Some sid \<and>
   findFirst (\<lambda>s. s_razorpaySubscriptionId s = sid) (subscriptions d) = Some sub
   \<longrightarrow> fst (handleRazorpayWebhook d b sg now) = Json 200 ''ok'' \<and>
       organizationAddOns (snd (handleRazorpayWebhook d b sg now)) =
         map (\<lambda>x. if oa_organizationId x = s_organizationId sub
                   then x\<lparr>oa_isActive := active\<rparr> else x) (organizationAddOns d) \<and>
       (\<forall>x\<in>set (organizationAddOns (snd (handleRazorpayWebhook d b sg now))).
           oa_organizationId x = s_organizationId sub \<longrightarrow> oa_isActive x = active) \<and>
       {x \<in> set (organizationAddOns (snd (handleRazorpayWebhook d b sg now))).
           oa_organizationId x \<noteq> s_organizationId sub} =
       {x \<in> set (organizationAddOns d). oa_organizationId x \<noteq> s_organizationId sub} \<and>
       map oa_usageCount (organizationAddOns (snd (handleRazorpayWebhook d b sg now))) =
         map oa_usageCount (organizationAddOns d) \<and>
       map oa_id (organizationAddOns (snd (handleRazorpayWebhook d b sg now))) =
         map oa_id (organizationAddOns d) \<and>
       map oa_addOnId (organizationAddOns (snd (handleRazorpayWebhook d b sg now))) =
         map oa_addOnId (organizationAddOns d) \<and>
       map oa_organizationId (organizationAddOns (snd (handleRazorpayWebhook d b sg now))) =
         map oa_organizationId (organizationAddOns d)"
proof (intro impI)
  assume h: "(wb_event b = ''subscription.cancelled'' \<and> \<not> active \<or>
    wb_event b = ''subscription.activated'' \<and> active) \<and>
   wb_subscriptionId b = Some sid \<and>
   findFirst (\<lambda>s. s_razorpaySubscriptionId s = sid) (subscriptions d) = Some sub"
  then have ev: "wb_event b = ''subscription.cancelled'' \<and> \<not> active \<or>
      wb_event b = ''subscription.activated'' \<and> active"
    and sid: "wb_subscriptionId b = Some sid"
    and sub: "findFirst (\<lambda>s. s_razorpaySubscriptionId s = sid) (subscriptions d) = Some sub"
    by blast+
  note ok = webhook_toggle(1) [OF ev sid sub, of sg now]
  note rows = webhook_toggle(2) [OF ev sid sub, of sg now]
  have m: "organizationAddOns (snd (handleRazorpayWebhook d b sg now)) =
         map (\<lambda>x. if oa_organizationId x = s_organizationId sub
                   then x\<lparr>oa_isActive := active\<rparr> else x) (organizationAddOns d)"
    unfolding rows updateMany_def ..
  have a: "\<forall>x\<in>set (organizationAddOns (snd (handleRazorpayWebhook d b sg now))).
           oa_organizationId x = s_organizationId sub \<longrightarrow> oa_isActive x = active"
    unfolding rows using toggle_all by blast
  have o: "{x \<in> set (organizationAddOns (snd (handleRazorpayWebhook d b sg now))).
           oa_organizationId x \<noteq> s_organizationId sub} =
       {x \<in> set (organizationAddOns d). oa_organizationId x \<noteq> s_organizationId sub}"
    unfolding rows by (rule toggle_others)
  have f: "map oa_usageCount (organizationAddOns (snd (handleRazorpayWebhook d b sg now))) =
         map oa_usageCount (organizationAddOns d)"
     "map oa_id (organizationAddOns (snd (handleRazorpayWebhook d b sg now))) =
         map oa_id (organizationAddOns d)"
     "map oa_addOnId (organizationAddOns (snd (handleRazorpayWebhook d b sg now))) =
         map oa_addOnId (organizationAddOns d)"
     "map oa_organizationId (organizationAddOns (snd (handleRazorpayWebhook d b sg now))) =
         map oa_organizationId (organizationAddOns d)"
    unfolding rows by (rule toggle_frame)+
  from ok m a o f show "fst (handleRazorpayWebhook d b sg now) = Json 200 ''ok'' \<and>
       organizationAddOns (snd (handleRazorpayWebhook d b sg now)) =
         map (\<lambda>x. if oa_organizationId x = s_organizationId sub
                   then x\<lparr>oa_isActive := active\<rparr> else x) (organizationAddOns d) \<and>
       (\<forall>x\<in>set (organizationAddOns (snd (handleRazorpayWebhook d b sg now))).
           oa_organizationId x = s_organizationId sub \<longrightarrow> oa_isActive x = active) \<and>
       {x \<in> set (organizationAddOns (snd (handleRazorpayWebhook d b sg now))).
           oa_organizationId x \<noteq> s_organizationId sub} =
       {x \<in> set (organizationAddOns d). oa_organizationId x \<noteq> s_organizationId sub} \<and>
       map oa_usageCount (organizationAddOns (snd (handleRazorpayWebhook d b sg now))) =
         map oa_usageCount (organizationAddOns d) \<and>
       map oa_id (organizationAddOns (snd (handleRazorpayWebhook d b sg now))) =
         map oa_id (organizationAddOns d) \<and>
       map oa_addOnId (organizationAddOns (snd (handleRazorpayWebhook d b sg now))) =
         map oa_addOnId (organizationAddOns d) \<and>
       map oa_organizationId (organizationAddOns (snd (handleRazorpayWebhook d b sg now))) =
         map oa_organizationId (organizationAddOns d)"
    by (intro conjI)
qed

theorem webhook_toggles_whole_organization_witness:
  "fst (handleRazorpayWebhook sample (webhookEvent ''subscription.cancelled'' ''sub_1'') None 1000000) =
     Json 200 ''ok'' \<and>
   map oa_isActive (organizationAddOns
     (snd (handleRazorpayWebhook sample (webhookEvent ''subscription.cancelled'' ''sub_1'') None 1000000))) =
     [False, False, True] \<and>
   map oa_usageCount (organizationAddOns
     (snd (handleRazorpayWebhook sample (webhookEvent ''subscription.cancelled'' ''sub_1'') None 1000000))) =
     [5, 0, 7]"
proof -
  have ev: "(wb_event (webhookEvent ''subscription.cancelled'' ''sub_1'') = ''subscription.cancelled'' \<and> \<not> False \<or>
      wb_event (webhookEvent ''subscription.cancelled'' ''sub_1'') = ''subscription.activated'' \<and> False) \<and>
     wb_subscriptionId (webhookEvent ''subscription.cancelled'' ''sub_1'') = Some ''sub_1'' \<and>
     findFirst (\<lambda>s. s_razorpaySubscriptionId s = ''sub_1'') (subscriptions sample) =
       Some (subscriptions sample ! 0)"
    by (simp add: webhookEvent_def eval_defs)
  note w = webhook_toggles_whole_organization [where b = "webhookEvent ''subscription.cancelled'' ''sub_1''"
      and active = False and sid = "''sub_1''" and d = sample and sub = "subscriptions sample ! 0"
      and sg = None and now = 1000000, THEN mp, OF ev]
  have a: "map oa_isActive (organizationAddOns
     (snd (handleRazorpayWebhook sample (webhookEvent ''subscription.cancelled'' ''sub_1'') None 1000000))) =
     [False, False, True]"
    unfolding w [THEN conjunct2, THEN conjunct1] by (simp add: sample_defs)
  have u: "map oa_usageCount (organizationAddOns
     (snd (handleRazorpayWebhook sample (webhookEvent ''subscription.cancelled'' ''sub_1'') None 1000000))) =
     [5, 0, 7]"
    unfolding w [THEN conjunct2, THEN conjunct2, THEN conjunct2, THEN conjunct2, THEN conjunct1]
    by (simp add: sample_defs)
  from w [THEN conjunct1] a u show ?thesis by (intro conjI)
qed

section \<open>The restore point\<close>

lemma numOr_Some_0: "numOr (Some n) 0 = n"
  by simp

lemma generateLocalBackup_of_caller:
  assumes "organizationOf d usr = Some org"
  shows "generateLocalBackup d (o_id org) t =
           Some \<lparr>lb_organization = includeOrganization d org, lb_backupDate = t,
                 lb_version = ''1.0.0''\<rparr>"
proof -
  from assms obtain oid where f: "findFirst (\<lambda>g. o_id g = oid) (organizations d) = Some org"
    unfolding organizationOf_def by (cases "u_organizationId usr") simp_all
  from findFirst_Some_holds [OF f] have "o_id org = oid" by simp
  with f show ?thesis unfolding generateLocalBackup_def by simp
qed

text \<open>The snapshot lists the patients of the organization's clinics, each once per
  clinic row it belongs to.\<close>

lemma includeOrganization_patients:
  "set (map ps_patient (concat (map cs_patients (os_clinics (includeOrganization d g))))) =
     {p \<in> set (patients d). \<exists>c\<in>set (clinics d). c_organizationId c = o_id g \<and> p_clinicId p = c_id c}"
  unfolding includeOrganization_def includeClinic_def includePatient_def
  by (simp add: set_eq_iff image_iff) blast

lemma restoreBackup_valid:
  assumes "findUser d userId = Some usr" and "organizationOf d usr = Some org"
    and "backupData = Some bd"
    and "bd_organization bd \<noteq> None" and "bd_patients bd \<noteq> None" and "bd_appointments bd \<noteq> None"
  shows "restoreBackup stringify d userId backupData backupDate now newId =
           (Json 200
              \<lparr>rs_patients = lengthOr0 (bd_patients bd),
               rs_appointments = lengthOr0 (bd_appointments bd),
               rs_ehrRecords = lengthOr0 (bd_ehrRecords bd),
               rs_restoreDate = now, rs_restorePointId = newId\<rparr>,
            restorePoint d newId (o_id org)
              (stringify \<lparr>lb_organization = includeOrganization d org,
                          lb_backupDate = backupDate, lb_version = ''1.0.0''\<rparr>) userId)"
  unfolding restoreBackup_def Let_def restoreFromBackup_def
  using assms generateLocalBackup_of_caller [OF assms(2), of backupDate]
  by (simp add: numOr_Some_0)

lemma restoreBackup_absent:
  assumes "findUser d userId = Some usr" and "organizationOf d usr = Some org"
  shows "restoreBackup stringify d userId None backupDate now newId =
           (Error 400 ''Backup data is required'', d)"
  unfolding restoreBackup_def using assms by simp

lemma restoreBackup_invalid:
  assumes "findUser d userId = Some usr" and "organizationOf d usr = Some org"
    and "bd_organization bd = None \<or> bd_patients bd = None \<or> bd_appointments bd = None"
  shows "restoreBackup stringify d userId (Some bd) backupDate now newId =
           (Error 400 ''Invalid backup data format'', d)"
  unfolding restoreBackup_def using assms by simp

text \<open>
  \<^bold>\<open>C7\<close>, as the claim states it, fails: the handler validates the payload before it
  creates the restore point, so an invocation whose payload lacks \<^verbatim>\<open>patients\<close> creates
  no Backup record. Called with the id of the administrator of \<open>org1\<close>, the handler
  answers 400 \<^verbatim>\<open>Invalid backup data format\<close>; sent by the same administrator through the
  route \<^verbatim>\<open>POST /api/backup/restore\<close>, the request is answered 400 as well. In both the
  store is left as it was.
\<close>

theorem restore_invalid_payload_counterexample:
  "\<forall>stringify.
     restoreBackup stringify sample ''admin1'' (Some payloadWithoutPatients) 999000 1000000 ''b1'' =
       (Error 400 ''Invalid backup data format'', sample) \<and>
     restoreBackupRoute stringify sample (Decoded (Some ''admin1''))
         (Some payloadWithoutPatients) 999000 1000000 ''b1'' =
       (Error 400 ''Failed to restore backup'', sample)"
proof (intro allI conjI)
  fix stringify :: "localBackup \<Rightarrow> string"
  show "restoreBackup stringify sample ''admin1'' (Some payloadWithoutPatients) 999000 1000000 ''b1'' =
       (Error 400 ''Invalid backup data format'', sample)"
    by (simp add: restoreBackup_def payloadWithoutPatients_def fullPayload_def eval_defs)
  show "restoreBackupRoute stringify sample (Decoded (Some ''admin1''))
         (Some payloadWithoutPatients) 999000 1000000 ''b1'' =
       (Error 400 ''Failed to restore backup'', sample)"
    by (simp add: restoreBackupRoute_def authenticateToken_def requireAdmin_def eval_defs)
qed

text \<open>
  \<^bold>\<open>C7, amended.\<close> For a caller who belongs to an organization, an invocation of
  restore whose payload is present with its \<^verbatim>\<open>organization\<close>, \<^verbatim>\<open>patients\<close> and
  \<^verbatim>\<open>appointments\<close> keys appends one LOCAL Backup record to the store, for the caller's
  organization and created by the caller, whose \<^verbatim>\<open>fileUrl\<close> is the JSON text of the
  snapshot that \<^verbatim>\<open>generateLocalBackup\<close> takes of the organization in the store as it was
  before the call. The record is stored before \<^verbatim>\<open>restoreFromBackup\<close> is called, which
  writes nothing: the store after the call is the store before it plus that record, and
  the reply is 200 with the lengths of the payload's arrays and the id of the record. An
  invocation by such a caller without a payload is answered 400
  \<^verbatim>\<open>Backup data is required\<close>, one whose payload lacks one of the three keys 400
  \<^verbatim>\<open>Invalid backup data format\<close>; both write nothing.
\<close>

theorem restore_point_before_restore:
  "findUser d userId = Some usr \<and> organizationOf d usr = Some org
   \<longrightarrow> (backupData = Some bd \<and>
        bd_organization bd \<noteq> None \<and> bd_patients bd \<noteq> None \<and> bd_appointments bd \<noteq> None
        \<longrightarrow> restoreBackup stringify d userId backupData backupDate now newId =
              (Json 200
                 \<lparr>rs_patients = lengthOr0 (bd_patients bd),
                  rs_appointments = lengthOr0 (bd_appointments bd),
                  rs_ehrRecords = lengthOr0 (bd_ehrRecords bd),
                  rs_restoreDate = now, rs_restorePointId = newId\<rparr>,
               d\<lparr>backups := backups d @
                   [\<lparr>b_id = newId, b_organizationId = o_id org, b_type = ''LOCAL'',
                     b_fileUrl = stringify \<lparr>lb_organization = includeOrganization d org,
                                            lb_backupDate = backupDate, lb_version = ''1.0.0''\<rparr>,
                     b_createdBy = userId\<rparr>]\<rparr>)) \<and>
       (backupData = None
        \<longrightarrow> restoreBackup stringify d userId backupData backupDate now newId =
              (Error 400 ''Backup data is required'', d)) \<and>
       (backupData = Some bd \<and>
        (bd_organization bd = None \<or> bd_patients bd = None \<or> bd_appointments bd = None)
        \<longrightarrow> restoreBackup stringify d userId backupData backupDate now newId =
              (Error 400 ''Invalid backup data format'', d))"
proof (intro impI conjI)
  assume "findUser d userId = Some usr \<and> organizationOf d usr = Some org"
  then have u: "findUser d userId = Some usr" "organizationOf d usr = Some org"
    by blast+
  {
    assume "backupData = Some bd \<and>
        bd_organization bd \<noteq> None \<and> bd_patients bd \<noteq> None \<and> bd_appointments bd \<noteq> None"
    then have v: "backupData = Some bd" "bd_organization bd \<noteq> None" "bd_patients bd \<noteq> None"
        "bd_appointments bd \<noteq> None"
      by blast+
    show "restoreBackup stringify d userId backupData backupDate now newId =
              (Json 200
                 \<lparr>rs_patients = lengthOr0 (bd_patients bd),
                  rs_appointments = lengthOr0 (bd_appointments bd),
                  rs_ehrRecords = lengthOr0 (bd_ehrRecords bd),
                  rs_restoreDate = now, rs_restorePointId = newId\<rparr>,
               d\<lparr>backups := backups d @
                   [\<lparr>b_id = newId, b_organizationId = o_id org, b_type = ''LOCAL'',
                     b_fileUrl = stringify \<lparr>lb_organization = includeOrganization d org,
                                            lb_backupDate = backupDate, lb_version = ''1.0.0''\<rparr>,
                     b_createdBy = userId\<rparr>]\<rparr>)"
      using restoreBackup_valid [OF u v, of stringify backupDate now newId]
      unfolding restorePoint_def .
  }
  {
    assume "backupData = None"
    then show "restoreBackup stringify d userId backupData backupDate now newId =
              (Error 400 ''Backup data is required'', d)"
      using restoreBackup_absent [OF u] by simp
  }
  assume "backupData = Some bd \<and>
        (bd_organization bd = None \<or> bd_patients bd = None \<or> bd_appointments bd = None)"
  then have "backupData = Some bd"
    and "bd_organization bd = None \<or> bd_patients bd = None \<or> bd_appointments bd = None"
    by (rule conjunct1, rule conjunct2)
  then show "restoreBackup stringify d userId backupData backupDate now newId =
              (Error 400 ''Invalid backup data format'', d)"
    using restoreBackup_invalid [OF u] by simp
qed

theorem restore_point_before_restore_witness:
  "\<forall>stringify.
     restoreBackup stringify sample ''admin1'' (Some fullPayload) 999000 1000000 ''b1'' =
       (Json 200 \<lparr>rs_patients = 2, rs_appointments = 0, rs_ehrRecords = 0,
                  rs_restoreDate = 1000000, rs_restorePointId = ''b1''\<rparr>,
        sample\<lparr>backups :=
          [\<lparr>b_id = ''b1'', b_organizationId = ''org1'', b_type = ''LOCAL'',
            b_fileUrl = stringify \<lparr>lb_organization =
                                     includeOrganization sample (organizations sample ! 0),
                                   lb_backupDate = 999000, lb_version = ''1.0.0''\<rparr>,
            b_createdBy = ''admin1''\<rparr>]\<rparr>) \<and>
     restoreBackup stringify sample ''admin1'' None 999000 1000000 ''b1'' =
       (Error 400 ''Backup data is required'', sample) \<and>
     restoreBackup stringify sample ''admin1'' (Some payloadWithoutPatients) 999000 1000000 ''b1'' =
       (Error 400 ''Invalid backup data format'', sample) \<and>
     map (\<lambda>s. p_id (ps_patient s))
       (concat (map cs_patients
          (os_clinics (includeOrganization sample (organizations sample ! 0))))) =
       [''p1'', ''p2'']"
proof (intro allI)
  fix stringify :: "localBackup \<Rightarrow> string"
  let ?org = "organizations sample ! 0"
  have caller: "findUser sample ''admin1'' = Some (sampleUsers ! 0) \<and>
      organizationOf sample (sampleUsers ! 0) = Some ?org"
    by (simp add: eval_defs)
  have valid: "Some fullPayload = Some fullPayload \<and>
      bd_organization fullPayload \<noteq> None \<and> bd_patients fullPayload \<noteq> None \<and>
      bd_appointments fullPayload \<noteq> None"
    by (simp add: fullPayload_def)
  have absent: "(None :: backupData option) = None" by simp
  have missing: "Some payloadWithoutPatients = Some payloadWithoutPatients \<and>
      (bd_organization payloadWithoutPatients = None \<or> bd_patients payloadWithoutPatients = None \<or>
       bd_appointments payloadWithoutPatients = None)"
    by (simp add: payloadWithoutPatients_def)
  have oid: "o_id ?org = ''org1''" by (simp add: sample_defs)
  have old: "backups sample = []" by (simp add: sample_defs)
  have counts: "lengthOr0 (bd_patients fullPayload) = 2" "lengthOr0 (bd_appointments fullPayload) = 0"
      "lengthOr0 (bd_ehrRecords fullPayload) = 0"
    by (simp_all add: lengthOr0_def fullPayload_def sample_defs)
  note v = restore_point_before_restore [where d = sample and userId = "''admin1''"
      and usr = "sampleUsers ! 0" and org = ?org and backupData = "Some fullPayload"
      and bd = fullPayload and stringify = stringify and backupDate = 999000
      and now = 1000000 and newId = "''b1''",
      THEN mp, OF caller, THEN conjunct1, THEN mp, OF valid, unfolded oid old counts append_Nil]
  note n = restore_point_before_restore [where d = sample and userId = "''admin1''"
      and usr = "sampleUsers ! 0" and org = ?org and backupData = None
      and stringify = stringify and backupDate = 999000 and now = 1000000 and newId = "''b1''",
      THEN mp, OF caller, THEN conjunct2, THEN conjunct1, THEN mp, OF absent]
  note m = restore_point_before_restore [where d = sample and userId = "''admin1''"
      and usr = "sampleUsers ! 0" and org = ?org and backupData = "Some payloadWithoutPatients"
      and bd = payloadWithoutPatients and stringify = stringify and backupDate = 999000
      and now = 1000000 and newId = "''b1''",
      THEN mp, OF caller, THEN conjunct2, THEN conjunct2, THEN mp, OF missing]
  have listed: "map (\<lambda>s. p_id (ps_patient s))
       (concat (map cs_patients
          (os_clinics (includeOrganization sample (organizations sample ! 0))))) =
       [''p1'', ''p2'']"
    by (simp add: includeOrganization_def includeClinic_def includePatient_def sample_defs)
  from v n m listed show "restoreBackup stringify sample ''admin1'' (Some fullPayload) 999000 1000000 ''b1'' =
       (Json 200 \<lparr>rs_patients = 2, rs_appointments = 0, rs_ehrRecords = 0,
                  rs_restoreDate = 1000000, rs_restorePointId = ''b1''\<rparr>,
        sample\<lparr>backups :=
          [\<lparr>b_id = ''b1'', b_organizationId = ''org1'', b_type = ''LOCAL'',
            b_fileUrl = stringify \<lparr>lb_organization =
                                     includeOrganization sample (organizations sample ! 0),
                                   lb_backupDate = 999000, lb_version = ''1.0.0''\<rparr>,
            b_createdBy = ''admin1''\<rparr>]\<rparr>) \<and>
     restoreBackup stringify sample ''admin1'' None 999000 1000000 ''b1'' =
       (Error 400 ''Backup data is required'', sample) \<and>
     restoreBackup stringify sample ''admin1'' (Some payloadWithoutPatients) 999000 1000000 ''b1'' =
       (Error 400 ''Invalid backup data format'', sample) \<and>
     map (\<lambda>s. p_id (ps_patient s))
       (concat (map cs_patients
          (os_clinics (includeOrganization sample (organizations sample ! 0))))) =
       [''p1'', ''p2'']"
    by (intro conjI)
qed

section \<open>Requests across organizations\<close>

lemma clinicInOrg_functional: "clinicInOrg d oid cid \<Longrightarrow> clinicInOrg d oid' cid \<Longrightarrow> oid = oid'"
  unfolding clinicInOrg_def by (auto split: option.splits)


lemma foreign_patient_unseen:
  assumes "\<forall>p\<in>set (patients d). p_id p = i \<longrightarrow> clinicInOrg d O1 (p_clinicId p)"
    and "oid \<noteq> O1"
  shows "findFirst (\<lambda>p. p_id p = i \<and> clinicInOrg d oid (p_clinicId p)) (patients d) = None"
  unfolding findFirst_None_iff using assms clinicInOrg_functional by blast



lemma foreign_clinic_unseen:
  assumes "\<forall>c\<in>set (clinics d). c_id c = i \<longrightarrow> c_organizationId c = O1"
    and "oid \<noteq> O1"
  shows "findFirst (\<lambda>c. c_id c = i \<and> c_organizationId c = oid) (clinics d) = None"
  unfolding findFirst_None_iff using assms by blast

text \<open>The two access middlewares answer a foreign id with 403; no route reaches them.\<close>

lemma access_middleware_denies_foreign:
  assumes "oid \<noteq> O1" and "i \<noteq> []"
  shows "(\<forall>p\<in>set (patients d). p_id p = i \<longrightarrow> clinicInOrg d O1 (p_clinicId p)) \<Longrightarrow>
         verifyPatientAccess d oid (Some i) =
           Deny 403 ''Access denied to this patient'' ''PATIENT_ACCESS_DENIED''"
    and "(\<forall>c\<in>set (clinics d). c_id c = i \<longrightarrow> c_organizationId c = O1) \<Longrightarrow>
         verifyClinicAccess d oid (Some i) =
           Deny 403 ''Access denied to this clinic'' ''CLINIC_ACCESS_DENIED''"
  unfolding verifyPatientAccess_def verifyClinicAccess_def
  using assms foreign_patient_unseen [of d i O1 oid] foreign_clinic_unseen [of d i O1 oid]
  by simp_all





section \<open>Listing appointments\<close>

lemma doctor_filter_replaces_role_filter:
  "truthy (q_doctor q) \<Longrightarrow> w_doctorId (whereConditions usr org userId q) = q_doctor q"
  unfolding whereConditions_def Let_def by (simp split: option.splits prod.splits)

lemma role_filter_without_doctor_filter:
  "\<not> truthy (q_doctor q) \<Longrightarrow>
   w_doctorId (whereConditions usr org userId q) =
     (if u_role usr = ''DOCTOR'' then Some userId else None)"
  unfolding whereConditions_def Let_def by (simp split: option.splits prod.splits)

lemma getAppointments_rows:
  assumes "findUser d userId = Some usr" and "organizationOf d usr = Some org"
  shows "\<exists>rows. getAppointments d userId q = Json 200 rows \<and>
           set rows = {a \<in> set (appointments d). matchesWhere d (whereConditions usr org userId q) a}"
  using assms unfolding getAppointments_def by simp

lemma getAppointments_own_without_doctor_filter:
  assumes "findUser d userId = Some usr" and "organizationOf d usr = Some org"
    and "u_role usr = ''DOCTOR''" and "\<not> truthy (q_doctor q)"
    and "getAppointments d userId q = Json 200 rows" and "a \<in> set rows"
  shows "a_doctorId a = userId \<and> clinicInOrg d (o_id org) (a_clinicId a)"
proof -
  from getAppointments_rows [OF assms(1,2), of q] assms(5,6)
  have m: "matchesWhere d (whereConditions usr org userId q) a" by auto
  have w: "w_doctorId (whereConditions usr org userId q) = Some userId"
    using role_filter_without_doctor_filter [OF assms(4)] assms(3) by simp
  have o: "w_organizationId (whereConditions usr org userId q) = o_id org"
    unfolding whereConditions_def Let_def by (simp split: option.splits prod.splits)
  from m w o show ?thesis unfolding matchesWhere_def by simp
qed

text \<open>In the handler the \<^verbatim>\<open>doctor\<close> query filter is written to the same key
  \<^verbatim>\<open>whereConditions.doctorId\<close> as the role restriction and replaces it: reached with
  the id of \<open>doc1\<close>, a DOCTOR, and \<^verbatim>\<open>doctor=doc2\<close>, the handler lists the appointment of
  \<open>doc2\<close>.\<close>

lemma getAppointments_doctor_filter_overrides_role:
  "u_role (sampleUsers ! 1) = ''DOCTOR'' \<and> u_id (sampleUsers ! 1) = ''doc1'' \<and>
   getAppointments sample ''doc1'' (byDoctor ''doc2'') = Json 200 [sampleAppointments ! 1] \<and>
   a_doctorId (sampleAppointments ! 1) = ''doc2''"
  by (simp add: getAppointments_def whereConditions_def matchesWhere_def byDoctor_def eval_defs)

text \<open>What \<^verbatim>\<open>authenticateToken\<close> assigns to \<^verbatim>\<open>req.user\<close> has no property
  \<^verbatim>\<open>userId\<close>.\<close>

lemma authenticateToken_sets_no_userId:
  "authenticateToken d cred = Next ru \<Longrightarrow> map_of ru ''userId'' = None"
  unfolding authenticateToken_def
  by (auto split: credential.splits option.splits if_splits)

text \<open>Through the route no caller is sent a list: the handler reads
  \<^verbatim>\<open>req.user.userId\<close>, a property \<^verbatim>\<open>authenticateToken\<close> does not assign (it assigns
  \<^verbatim>\<open>id\<close>).\<close>

lemma getAppointmentsRoute_never_lists:
  "isError (getAppointmentsRoute d cred q)"
proof (cases "authenticateToken d cred")
  case (Next ru)
  with authenticateToken_sets_no_userId [OF Next] show ?thesis
    unfolding getAppointmentsRoute_def by simp
next
  case (Deny n e c)
  then show ?thesis unfolding getAppointmentsRoute_def by simp
qed

text \<open>
  \<^bold>\<open>C2.\<close> The claim does not hold of the code: \<open>staff1\<close>, a verified STAFF member of
  \<open>org1\<close>, who sends \<^verbatim>\<open>GET /api/appointments\<close> with a valid token and no filter passes
  \<^verbatim>\<open>authenticateToken\<close>, which assigns \<^verbatim>\<open>req.user\<close> an object without the property
  \<^verbatim>\<open>userId\<close> that the handler reads; the handler's lookup of the caller throws and the
  reply is 500 \<^verbatim>\<open>Failed to fetch appointments\<close>, where the claim promises the four
  appointments of the organization.
\<close>

theorem getAppointments_route_without_userId:
  "authenticateToken sample (Decoded (Some ''staff1'')) =
     Next [(''id'', ''staff1''), (''email'', ''s1@x''), (''role'', ''STAFF''), (''name'', ''Sam''),
           (''organizationId'', ''org1'')] \<and>
   map_of [(''id'', ''staff1''), (''email'', ''s1@x''), (''role'', ''STAFF''), (''name'', ''Sam''),
           (''organizationId'', ''org1'')] ''userId'' = None \<and>
   getAppointmentsRoute sample (Decoded (Some ''staff1'')) noFilter =
     Error 500 ''Failed to fetch appointments'' \<and>
   map a_id (filter (\<lambda>a. clinicInOrg sample ''org1'' (a_clinicId a)) (appointments sample)) =
     [''ap1'', ''ap2'', ''ap3'', ''ap4'']"
  by (simp add: getAppointmentsRoute_def authenticateToken_def noFilter_def eval_defs)

end
